theory Spec2Isabelle
  imports Complex_Main "HOL-Library.AList"
begin

section \<open>Data model of the data-access module\<close>

text \<open>
  The module \<^verbatim>\<open>services/firestore\<close> is a list of asynchronous functions over the
  collections of a document database. Each collection is an association list from
  document id to document, in query order. The records keep the fields that the
  functions below read or write; the time stamps (\<^verbatim>\<open>createdAt\<close>, \<^verbatim>\<open>updatedAt\<close>)
  are left out. A field that is only tested or defaulted is an \<open>option\<close>, \<open>None\<close>
  standing for null and for a missing field alike. The two profile fields that the module
  copies into a new document as they are, \<^verbatim>\<open>avatar\<close> and \<^verbatim>\<open>primaryRole\<close>, keep the three
  cases apart: reading a missing field gives \<^verbatim>\<open>undefined\<close>, and the database client does
  not store \<^verbatim>\<open>undefined\<close>.
\<close>

datatype optString = Undefined | Null | Str string

record UserProfile =
  fullName :: "string option"
  avatar :: optString
  primaryRole :: optString
  teamId :: "string option"
  isTeamLeader :: bool

record MemberEntry =
  userId :: string
  role :: string
  userName :: string

record Team =
  name :: string
  description :: string
  leaderId :: string
  leaderName :: string
  maxMembers :: real  \<comment> \<open>a JavaScript number, which need not be whole; no NaN, no infinity here\<close>
  members :: "MemberEntry list"
  rolesNeeded :: "string list"
  teamStatus :: string

record TeamMemberDoc =
  tm_teamId :: string
  tm_userId :: string
  tm_role :: string

datatype InvType = invite | join_request

datatype InvStatus = pending | accepted | rejected

record Invitation =
  invType :: InvType
  fromUserId :: string
  fromUserName :: string
  toUserId :: string
  toUserName :: string
  invTeamId :: string
  invTeamName :: string
  invMessage :: string
  status :: InvStatus

datatype NotifType = INVITE | JOIN_REQUEST | ACCEPTED | REJECTED | MESSAGE

record Notification =
  n_toUserId :: string
  n_fromUserId :: string
  n_fromUserName :: string
  n_type :: NotifType
  n_teamId :: "string option"
  n_teamName :: "string option"
  n_message :: string
  n_conversationId :: "string option"
  n_read :: bool

datatype PostType = team_created | member_joined | user_post

record FeedPost =
  authorId :: string
  authorName :: string
  authorAvatar :: optString
  authorRole :: optString
  postType :: PostType
  title :: string
  postDescription :: string
  postTeamId :: "string option"
  postTeamName :: "string option"
  postRolesNeeded :: "string list"

record LastMessage =
  lm_text :: string
  lm_senderId :: string

record Conversation =
  participants :: "string list"
  participantNames :: "(string \<times> string) list"
  participantAvatars :: "(string \<times> string) list"
  lastMessage :: "LastMessage option"

record Message =
  m_conversationId :: string
  m_participants :: "string list"
  senderId :: string
  senderName :: string
  msgText :: string
  m_read :: bool

text \<open>
  The state of the world the module runs in: what \<^verbatim>\<open>isFirebaseConfigured()\<close> answers
  (the function lives in \<^verbatim>\<open>lib/firebase\<close>, so its answer is a parameter here), the
  collections, and the ids the database hands out for added documents: the \<open>k\<close>-th
  \<^verbatim>\<open>addDoc\<close> of a run receives \<open>autoId k\<close>. The client is created in \<^verbatim>\<open>lib/firebase\<close>
  too, so its setting \<^verbatim>\<open>ignoreUndefinedProperties\<close> is a parameter as well; the client's
  default is false.
\<close>

record store =
  configured :: bool
  ignoreUndefinedProperties :: bool
  profiles :: "(string \<times> UserProfile) list"
  teams :: "(string \<times> Team) list"
  teamMembers :: "(string \<times> TeamMemberDoc) list"
  invitations :: "(string \<times> Invitation) list"
  notifications :: "(string \<times> Notification) list"
  posts :: "(string \<times> FeedPost) list"
  conversations :: "(string \<times> Conversation) list"
  messages :: "(string \<times> Message) list"
  autoId :: "nat \<Rightarrow> string"
  issued :: nat

text \<open>Every \<^verbatim>\<open>throw\<close> of the module, and the rejections of the database client that
  the module can run into: a document reference with an empty id, an update of a document
  that does not exist, and a new document with a field that is \<^verbatim>\<open>undefined\<close>.\<close>

datatype error =
    UserIdRequired
  | UserAlreadyInTeam
  | TeamNotFound
  | TeamIsFull
  | YouAreAlreadyInTeam
  | JoinRequestAlreadySent
  | InvitationAlreadySent
  | InvitationNotFound
  | TeamNoLongerExists
  | OnlyLeaderCanTerminate
  | ConversationNotFound
  | InvalidDocumentReference
  | NoDocumentToUpdate
  | UnsupportedFieldValue
  | TypeError

section \<open>Asynchronous functions as state transformers with errors\<close>

text \<open>An \<^verbatim>\<open>async\<close> function takes the store and gives back the store it leaves behind,
  with either the value it resolves to or the error it rejects with. A rejected call
  keeps the writes it made before the rejection.\<close>

type_synonym 'a io = "store \<Rightarrow> (error + 'a) \<times> store"

definition ok :: "'a \<Rightarrow> 'a io" where
  "ok x = (\<lambda>s. (Inr x, s))"

definition throw :: "error \<Rightarrow> 'a io" where
  "throw e = (\<lambda>s. (Inl e, s))"

definition await :: "'a io \<Rightarrow> ('a \<Rightarrow> 'b io) \<Rightarrow> 'b io" where
  "await m f = (\<lambda>s. case m s of (Inl e, s') \<Rightarrow> (Inl e, s') | (Inr x, s') \<Rightarrow> f x s')"

definition guarded :: "'a \<Rightarrow> 'a io \<Rightarrow> 'a io" where
  \<comment> \<open>\<^verbatim>\<open>if (!isFirebaseConfigured()) return v;\<close> in front of a body\<close>
  "guarded v m = (\<lambda>s. if configured s then m s else (Inr v, s))"

fun forEach :: "('a \<Rightarrow> unit io) \<Rightarrow> 'a list \<Rightarrow> unit io" where
  "forEach f [] = ok ()"
| "forEach f (x # xs) = await (f x) (\<lambda>_. forEach f xs)"

subsection \<open>The database client\<close>

definition doc :: "string \<Rightarrow> string io" where
  \<comment> \<open>\<^verbatim>\<open>doc(db, collection, id)\<close>: the client rejects an empty id, which is no document path\<close>
  "doc i = (if i = [] then throw InvalidDocumentReference else ok i)"

definition getDoc :: "(store \<Rightarrow> (string \<times> 'a) list) \<Rightarrow> string \<Rightarrow> 'a option io" where
  "getDoc coll r = (\<lambda>s. (Inr (map_of (coll s) r), s))"

definition updateDoc ::
  "(store \<Rightarrow> (string \<times> 'a) list) \<Rightarrow>
   (((string \<times> 'a) list \<Rightarrow> (string \<times> 'a) list) \<Rightarrow> store \<Rightarrow> store) \<Rightarrow>
   string \<Rightarrow> ('a \<Rightarrow> 'a) \<Rightarrow> unit io" where
  \<comment> \<open>rejects when the document does not exist\<close>
  "updateDoc coll upd r f = (\<lambda>s.
     case map_of (coll s) r of
       None \<Rightarrow> (Inl NoDocumentToUpdate, s)
     | Some d \<Rightarrow> (Inr (), upd (AList.update r (f d)) s))"

definition addDoc ::
  "(((string \<times> 'a) list \<Rightarrow> (string \<times> 'a) list) \<Rightarrow> store \<Rightarrow> store) \<Rightarrow>
   ('a \<Rightarrow> bool) \<Rightarrow> 'a \<Rightarrow> string io" where
  \<comment> \<open>writes the document under the next id the database hands out; \<open>undefinedIn\<close> says
      whether the document has a field that is \<^verbatim>\<open>undefined\<close>, which the client rejects
      unless it is set to ignore such fields\<close>
  "addDoc upd undefinedIn d = (\<lambda>s.
     if undefinedIn d \<and> \<not> ignoreUndefinedProperties s then (Inl UnsupportedFieldValue, s)
     else
       let i = autoId s (issued s)
       in (Inr i, upd (AList.update i d) (s\<lparr>issued := Suc (issued s)\<rparr>)))"

definition neverUndefined :: "'a \<Rightarrow> bool" where
  \<comment> \<open>the \<open>undefinedIn\<close> of the documents in which the module writes no field that can be
      \<^verbatim>\<open>undefined\<close>\<close>
  "neverUndefined d = False"

definition undefinedInPost :: "FeedPost \<Rightarrow> bool" where
  "undefinedInPost d = (authorAvatar d = Undefined \<or> authorRole d = Undefined)"

definition deleteDoc ::
  "(((string \<times> 'a) list \<Rightarrow> (string \<times> 'a) list) \<Rightarrow> store \<Rightarrow> store) \<Rightarrow> string \<Rightarrow> unit io" where
  "deleteDoc upd r = (\<lambda>s. (Inr (), upd (AList.delete r) s))"

definition getDocs ::
  "(store \<Rightarrow> (string \<times> 'a) list) \<Rightarrow> (string \<times> 'a \<Rightarrow> bool) \<Rightarrow> (string \<times> 'a) list io" where
  \<comment> \<open>\<^verbatim>\<open>getDocs(query(collection, where ...))\<close>: the matching documents, in query order\<close>
  "getDocs coll P = (\<lambda>s. (Inr (filter P (coll s)), s))"

section \<open>Profiles, feed posts, notifications\<close>

definition getProfile :: "string \<Rightarrow> UserProfile option io" where
  "getProfile uid = guarded None (await (doc uid) (getDoc profiles))"

record ProfilePatch =
  p_teamId :: "string option"
  p_isTeamLeader :: bool

definition updateProfile :: "string \<Rightarrow> ProfilePatch \<Rightarrow> unit io" where
  \<comment> \<open>every caller in the module passes \<^verbatim>\<open>{ teamId, isTeamLeader }\<close>\<close>
  "updateProfile uid patch = guarded ()
     (if uid = [] then throw UserIdRequired
      else await (doc uid) (\<lambda>r. updateDoc profiles profiles_update r
             (\<lambda>p. p\<lparr>teamId := p_teamId patch, isTeamLeader := p_isTeamLeader patch\<rparr>)))"

definition createFeedPost :: "FeedPost \<Rightarrow> string io" where
  "createFeedPost d = guarded [] (addDoc posts_update undefinedInPost d)"

definition createNotification :: "Notification \<Rightarrow> unit io" where
  \<comment> \<open>\<^verbatim>\<open>{ ...data, read: false }\<close>\<close>
  "createNotification d = guarded ()
     (await (addDoc notifications_update neverUndefined (d\<lparr>n_read := False\<rparr>)) (\<lambda>_. ok ()))"

definition truthy :: "string option \<Rightarrow> bool" where
  \<comment> \<open>JavaScript truthiness of a \<^verbatim>\<open>string | null | undefined\<close>\<close>
  "truthy x = (case x of None \<Rightarrow> False | Some v \<Rightarrow> v \<noteq> [])"

definition orElse :: "string option \<Rightarrow> string \<Rightarrow> string" where
  \<comment> \<open>\<^verbatim>\<open>x || d\<close>\<close>
  "orElse x d = (case x of None \<Rightarrow> d | Some v \<Rightarrow> if v = [] then d else v)"

definition field :: "'p option \<Rightarrow> ('p \<Rightarrow> 'v option) \<Rightarrow> 'v option" where
  \<comment> \<open>\<^verbatim>\<open>profile?.f\<close>\<close>
  "field p f = (case p of None \<Rightarrow> None | Some q \<Rightarrow> f q)"

definition optionalField :: "'p option \<Rightarrow> ('p \<Rightarrow> optString) \<Rightarrow> optString" where
  \<comment> \<open>\<^verbatim>\<open>profile?.f\<close> on the fields \<^verbatim>\<open>avatar\<close> and \<^verbatim>\<open>primaryRole\<close>, \<^verbatim>\<open>undefined\<close> without a profile\<close>
  "optionalField p f = (case p of None \<Rightarrow> Undefined | Some q \<Rightarrow> f q)"

definition orDefault :: "optString \<Rightarrow> string \<Rightarrow> string" where
  \<comment> \<open>\<^verbatim>\<open>x || d\<close>\<close>
  "orDefault x d = (case x of Str v \<Rightarrow> (if v = [] then d else v) | _ \<Rightarrow> d)"

section \<open>Teams\<close>

text \<open>The two titles start with a pictograph, which the source file holds as four
  mis-decoded characters; \<open>rocket\<close> and \<open>party\<close> are their bytes.\<close>

definition rocket :: string where
  "rocket = [CHR 0xC3, CHR 0xB0, CHR 0xC5, CHR 0xB8, CHR 0xC5, CHR 0xA1, CHR 0xE2, CHR 0x82, CHR 0xAC]"

definition party :: string where
  "party = [CHR 0xC3, CHR 0xB0, CHR 0xC5, CHR 0xB8, CHR 0xC5, CHR 0xBD, CHR 0xE2, CHR 0x80, CHR 0xB0]"

definition getTeam :: "string \<Rightarrow> Team option io" where
  "getTeam tid = guarded None (await (doc tid) (getDoc teams))"

definition updateTeam :: "string \<Rightarrow> MemberEntry list \<Rightarrow> unit io" where
  \<comment> \<open>every caller in the module passes \<^verbatim>\<open>{ members }\<close>\<close>
  "updateTeam tid ms = guarded ()
     (await (doc tid) (\<lambda>r. updateDoc teams teams_update r (\<lambda>t. t\<lparr>members := ms\<rparr>)))"

definition teamCreatedPost :: "Team \<Rightarrow> UserProfile option \<Rightarrow> string \<Rightarrow> string \<Rightarrow> FeedPost" where
  \<comment> \<open>the object that \<^verbatim>\<open>createTeam\<close> hands to \<^verbatim>\<open>createFeedPost\<close>\<close>
  "teamCreatedPost d leaderProfile leaderName' docId =
     \<lparr>authorId = leaderId d, authorName = leaderName',
      authorAvatar = optionalField leaderProfile avatar,
      authorRole = optionalField leaderProfile primaryRole,
      postType = team_created,
      title = rocket @ '' Created team: '' @ name d,
      postDescription = description d,
      postTeamId = Some docId, postTeamName = Some (name d),
      postRolesNeeded = rolesNeeded d\<rparr>"

definition memberJoinedPost ::
  "Team \<Rightarrow> UserProfile option \<Rightarrow> string \<Rightarrow> string \<Rightarrow> string \<Rightarrow> string \<Rightarrow> FeedPost" where
  \<comment> \<open>the object that \<^verbatim>\<open>addTeamMember\<close> hands to \<^verbatim>\<open>createFeedPost\<close>\<close>
  "memberJoinedPost t profile userName' tid uid r =
     \<lparr>authorId = uid, authorName = userName',
      authorAvatar = optionalField profile avatar,
      authorRole = optionalField profile primaryRole,
      postType = member_joined,
      title = party @ '' Joined team: '' @ name t,
      postDescription = userName' @ '' joined as '' @ r,
      postTeamId = Some tid, postTeamName = Some (name t),
      postRolesNeeded = []\<rparr>"

definition createTeam :: "Team \<Rightarrow> string io" where
  "createTeam d = guarded []
     (await (getProfile (leaderId d)) (\<lambda>leaderProfile.
      let leaderName' = orElse (field leaderProfile fullName) ''User'' in
      await (addDoc teams_update neverUndefined
               (d\<lparr>leaderName := leaderName',
                  members := [\<lparr>userId = leaderId d, role = ''Team Leader'',
                               userName = leaderName'\<rparr>]\<rparr>)) (\<lambda>docId.
      await (updateProfile (leaderId d) \<lparr>p_teamId = Some docId, p_isTeamLeader = True\<rparr>) (\<lambda>_.
      await (createFeedPost (teamCreatedPost d leaderProfile leaderName' docId)) (\<lambda>_.
      ok docId)))))"

definition addTeamMember :: "string \<Rightarrow> string \<Rightarrow> string \<Rightarrow> unit io" where
  "addTeamMember tid uid r = guarded ()
     (await (getProfile uid) (\<lambda>profile.
      if truthy (field profile teamId) then throw UserAlreadyInTeam
      else await (getTeam tid) (\<lambda>team.
        case team of
          None \<Rightarrow> throw TeamNotFound
        | Some t \<Rightarrow>
            if real (length (members t)) \<ge> maxMembers t then throw TeamIsFull
            else
              let userName' = orElse (field profile fullName) ''User'' in
              await (updateTeam tid
                       (members t @ [\<lparr>userId = uid, role = r, userName = userName'\<rparr>])) (\<lambda>_.
              await (updateProfile uid \<lparr>p_teamId = Some tid, p_isTeamLeader = False\<rparr>) (\<lambda>_.
              await (createFeedPost (memberJoinedPost t profile userName' tid uid r)) (\<lambda>_.
              await (addDoc teamMembers_update neverUndefined
                       \<lparr>tm_teamId = tid, tm_userId = uid, tm_role = r\<rparr>) (\<lambda>_.
              ok ())))))))"

definition removeTeamMember :: "string \<Rightarrow> string \<Rightarrow> unit io" where
  "removeTeamMember tid uid = guarded ()
     (await (getTeam tid) (\<lambda>team.
      case team of
        None \<Rightarrow> ok ()
      | Some t \<Rightarrow>
          await (updateTeam tid (filter (\<lambda>m. userId m \<noteq> uid) (members t))) (\<lambda>_.
          await (updateProfile uid \<lparr>p_teamId = None, p_isTeamLeader = False\<rparr>) (\<lambda>_.
          await (getDocs teamMembers (\<lambda>(i, d). tm_teamId d = tid \<and> tm_userId d = uid)) (\<lambda>snapshot.
          forEach (\<lambda>(i, d). deleteDoc teamMembers_update i) snapshot)))))"

definition terminateTeam :: "string \<Rightarrow> string \<Rightarrow> unit io" where
  "terminateTeam tid lid = guarded ()
     (await (getTeam tid) (\<lambda>team.
      case team of
        None \<Rightarrow> throw TeamNotFound
      | Some t \<Rightarrow>
          if leaderId t \<noteq> lid then throw OnlyLeaderCanTerminate
          else
            await (forEach (\<lambda>m. updateProfile (userId m)
                              \<lparr>p_teamId = None, p_isTeamLeader = False\<rparr>) (members t)) (\<lambda>_.
            await (getDocs teamMembers (\<lambda>(i, d). tm_teamId d = tid)) (\<lambda>membersSnapshot.
            await (forEach (\<lambda>(i, d). deleteDoc teamMembers_update i) membersSnapshot) (\<lambda>_.
            await (getDocs invitations (\<lambda>(i, d). invTeamId d = tid)) (\<lambda>invitationsSnapshot.
            await (forEach (\<lambda>(i, d). deleteDoc invitations_update i) invitationsSnapshot) (\<lambda>_.
            await (doc tid) (deleteDoc teams_update))))))))"

section \<open>Invitations and join requests\<close>

definition invitationNotification :: "Invitation \<Rightarrow> Notification" where
  \<comment> \<open>the object that \<^verbatim>\<open>sendInvitation\<close> hands to \<^verbatim>\<open>createNotification\<close>\<close>
  "invitationNotification d =
     (let isJoinRequest = (invType d = join_request);
          notifyUserId = (if isJoinRequest then toUserId d else toUserId d) in
      \<lparr>n_toUserId = notifyUserId, n_fromUserId = fromUserId d,
       n_fromUserName = fromUserName d,
       n_type = (if isJoinRequest then JOIN_REQUEST else INVITE),
       n_teamId = Some (invTeamId d), n_teamName = Some (invTeamName d),
       n_message = invMessage d, n_conversationId = None, n_read = False\<rparr>)"

definition responseNotification ::
  "Invitation \<Rightarrow> UserProfile option \<Rightarrow> NotifType \<Rightarrow> string \<Rightarrow> Notification" where
  \<comment> \<open>the object that \<^verbatim>\<open>respondToInvitation\<close> hands to \<^verbatim>\<open>createNotification\<close>,
      in both branches; they differ in the type and the message\<close>
  "responseNotification invitation responderProfile ty msg =
     (let isJoinRequest = (invType invitation = join_request);
          notifyUserId = (if isJoinRequest then fromUserId invitation
                          else fromUserId invitation) in
      \<lparr>n_toUserId = notifyUserId,
       n_fromUserId = (if isJoinRequest then toUserId invitation else toUserId invitation),
       n_fromUserName = orElse (field responderProfile fullName) ''User'',
       n_type = ty,
       n_teamId = Some (invTeamId invitation),
       n_teamName = Some (invTeamName invitation),
       n_message = msg,
       n_conversationId = None, n_read = False\<rparr>)"

definition acceptedMessage :: "Invitation \<Rightarrow> string" where
  "acceptedMessage invitation =
     (let isJoinRequest = (invType invitation = join_request);
          joiningUserName = (if isJoinRequest then fromUserName invitation
                             else toUserName invitation) in
      if isJoinRequest
      then ''Your request to join '' @ invTeamName invitation @ '' was accepted!''
      else joiningUserName @ '' accepted your invitation to join '' @ invTeamName invitation)"

definition rejectedMessage :: "Invitation \<Rightarrow> string" where
  "rejectedMessage invitation =
     (if invType invitation = join_request
      then ''Your request to join '' @ invTeamName invitation @ '' was declined''
      else toUserName invitation @ '' declined your invitation to join ''
             @ invTeamName invitation)"

definition sendInvitation :: "Invitation \<Rightarrow> unit io" where
  "sendInvitation d = guarded ()
     (let isJoinRequest = (invType d = join_request) in
      await (if \<not> isJoinRequest
             then await (getProfile (toUserId d)) (\<lambda>targetProfile.
                    if truthy (field targetProfile teamId) then throw UserAlreadyInTeam
                    else ok ())
             else ok ()) (\<lambda>_.
      await (if isJoinRequest
             then await (getProfile (fromUserId d)) (\<lambda>senderProfile.
                    if truthy (field senderProfile teamId) then throw YouAreAlreadyInTeam
                    else ok ())
             else ok ()) (\<lambda>_.
      await (getDocs invitations
               (\<lambda>(i, x). fromUserId x = fromUserId d \<and> invTeamId x = invTeamId d
                          \<and> status x = pending)) (\<lambda>existingSnap.
      if existingSnap \<noteq> []
      then throw (if isJoinRequest then JoinRequestAlreadySent else InvitationAlreadySent)
      else
        await (addDoc invitations_update neverUndefined (d\<lparr>status := pending\<rparr>)) (\<lambda>_.
        createNotification (invitationNotification d))))))"

definition respondToInvitation ::
  "string \<Rightarrow> InvStatus \<Rightarrow> string option \<Rightarrow> string option \<Rightarrow> string option \<Rightarrow> unit io" where
  "respondToInvitation invitationId st teamIdArg userIdArg roleArg = guarded ()
     (await (doc invitationId) (\<lambda>invRef.
      await (getDoc invitations invRef) (\<lambda>invSnap.
      case invSnap of
        None \<Rightarrow> throw InvitationNotFound
      | Some invitation \<Rightarrow>
          let isJoinRequest = (invType invitation = join_request);
              joiningUserId = (if isJoinRequest then fromUserId invitation
                               else toUserId invitation);
              joiningUserName = (if isJoinRequest then fromUserName invitation
                                 else toUserName invitation) in
          await (if st = accepted
                 then await (getProfile joiningUserId) (\<lambda>profile.
                        if truthy (field profile teamId) then throw UserAlreadyInTeam
                        else await (getTeam (invTeamId invitation)) (\<lambda>team.
                          case team of
                            None \<Rightarrow> throw TeamNoLongerExists
                          | Some t \<Rightarrow>
                              if real (length (members t)) \<ge> maxMembers t
                              then throw TeamIsFull else ok ()))
                 else ok ()) (\<lambda>_.
          await (updateDoc invitations invitations_update invRef (\<lambda>x. x\<lparr>status := st\<rparr>)) (\<lambda>_.
          if st = accepted then
            await (getProfile joiningUserId) (\<lambda>joiningProfile.
            let joiningRole = orDefault (optionalField joiningProfile primaryRole)
                                (orElse roleArg ''Member'') in
            await (addTeamMember (invTeamId invitation) joiningUserId joiningRole) (\<lambda>_.
            await (getProfile (if isJoinRequest then toUserId invitation
                               else toUserId invitation)) (\<lambda>responderProfile.
            createNotification
              (responseNotification invitation responderProfile ACCEPTED
                 (acceptedMessage invitation)))))
          else if st = rejected then
            await (getProfile (if isJoinRequest then toUserId invitation
                               else toUserId invitation)) (\<lambda>responderProfile.
            createNotification
              (responseNotification invitation responderProfile REJECTED
                 (rejectedMessage invitation)))
          else ok ())))))"

section \<open>Statistics, messaging, account deletion\<close>

definition getAvailableUsersCount :: "nat io" where
  "getAvailableUsersCount = guarded 0
     (await (getDocs profiles (\<lambda>(i, p). teamId p = None)) (\<lambda>snapshot.
      ok (length snapshot)))"

definition dicebear :: "UserProfile option \<Rightarrow> string" where
  "dicebear p = orDefault (optionalField p avatar)
     (''https://api.dicebear.com/7.x/initials/svg?seed='' @ orElse (field p fullName) ''User'')"

definition newConversation ::
  "string \<Rightarrow> string \<Rightarrow> UserProfile option \<Rightarrow> UserProfile option \<Rightarrow> Conversation" where
  \<comment> \<open>the object that \<^verbatim>\<open>getOrCreateConversation\<close> hands to \<^verbatim>\<open>addDoc\<close>; a later
      computed key of an object literal overwrites an equal earlier one\<close>
  "newConversation user1Id user2Id profile1 profile2 =
     \<lparr>participants = [user1Id, user2Id],
      participantNames =
        AList.update user2Id (orElse (field profile2 fullName) ''User'')
          [(user1Id, orElse (field profile1 fullName) ''User'')],
      participantAvatars =
        AList.update user2Id (dicebear profile2) [(user1Id, dicebear profile1)],
      lastMessage = None\<rparr>"

definition messageNotification ::
  "string \<Rightarrow> string \<Rightarrow> UserProfile option \<Rightarrow> string \<Rightarrow> string \<Rightarrow> Notification" where
  \<comment> \<open>the object that \<^verbatim>\<open>sendMessage\<close> hands to \<^verbatim>\<open>createNotification\<close>; the preview counts
      the characters of the model's string, the code counts UTF-16 units, which is the same
      number for ASCII text\<close>
  "messageNotification recipientId sender senderProfile txt conversationId =
     \<lparr>n_toUserId = recipientId, n_fromUserId = sender,
      n_fromUserName = orElse (field senderProfile fullName) ''User'',
      n_type = MESSAGE, n_teamId = None, n_teamName = None,
      n_message = (if length txt > 50 then take 50 txt @ ''...'' else txt),
      n_conversationId = Some conversationId, n_read = False\<rparr>"

definition getOrCreateConversation :: "string \<Rightarrow> string \<Rightarrow> string io" where
  "getOrCreateConversation user1Id user2Id = guarded []
     (await (getDocs conversations (\<lambda>(i, c). user1Id \<in> set (participants c))) (\<lambda>snapshot.
      case find (\<lambda>(i, c). user2Id \<in> set (participants c)) snapshot of
        Some (i, c) \<Rightarrow> ok i
      | None \<Rightarrow>
          await (getProfile user1Id) (\<lambda>profile1.
          await (getProfile user2Id) (\<lambda>profile2.
          await (addDoc conversations_update neverUndefined
                   (newConversation user1Id user2Id profile1 profile2)) (\<lambda>docId.
          ok docId)))))"

definition sendMessage :: "string \<Rightarrow> string \<Rightarrow> string \<Rightarrow> string io" where
  "sendMessage conversationId sender txt = guarded []
     (await (getProfile sender) (\<lambda>senderProfile.
      await (await (doc conversationId) (getDoc conversations)) (\<lambda>convSnap.
      case convSnap of
        None \<Rightarrow> throw ConversationNotFound
      | Some conversationData \<Rightarrow>
          await (addDoc messages_update neverUndefined
                   \<lparr>m_conversationId = conversationId,
                    m_participants = participants conversationData,
                    senderId = sender,
                    senderName = orElse (field senderProfile fullName) ''User'',
                    msgText = txt, m_read = False\<rparr>) (\<lambda>messageId.
          await (await (doc conversationId) (\<lambda>r.
                   updateDoc conversations conversations_update r
                     (\<lambda>c. c\<lparr>lastMessage := Some \<lparr>lm_text = txt, lm_senderId = sender\<rparr>\<rparr>))) (\<lambda>_.
          let recipientId = find (\<lambda>i. i \<noteq> sender) (participants conversationData) in
          await (case recipientId of
                   None \<Rightarrow> ok ()
                 | Some recipient \<Rightarrow>
                     if recipient = [] then ok ()
                     else createNotification
                            (messageNotification recipient sender senderProfile txt
                               conversationId)) (\<lambda>_.
          ok messageId))))))"

definition deleteUserCompletely :: "string \<Rightarrow> unit io" where
  \<comment> \<open>the one function here that does not ask \<^verbatim>\<open>isFirebaseConfigured()\<close>\<close>
  "deleteUserCompletely uid =
     await (doc uid) (\<lambda>profileRef.
     await (getDocs profiles (\<lambda>(i, p). i = uid)) (\<lambda>profileSnap.
     case profileSnap of
       [] \<Rightarrow> ok ()
     | (_, profile) # _ \<Rightarrow>
         await (case teamId profile of
                  None \<Rightarrow> ok ()
                | Some tid \<Rightarrow>
                    if tid = [] then ok ()
                    else
                      await (doc tid) (\<lambda>teamRef.
                      await (getDocs teams (\<lambda>(i, t). i = tid)) (\<lambda>teamSnap.
                      case teamSnap of
                        [] \<Rightarrow> throw TypeError
                      | (_, team) # _ \<Rightarrow>
                          if leaderId team = uid then deleteDoc teams_update teamRef
                          else updateDoc teams teams_update teamRef
                                 (\<lambda>t. t\<lparr>members := filter (\<lambda>m. userId m \<noteq> uid) (members team)\<rparr>)))) (\<lambda>_.
         await (getDocs posts (\<lambda>(i, p). authorId p = uid)) (\<lambda>postsSnap.
         await (forEach (\<lambda>(i, p). deleteDoc posts_update i) postsSnap) (\<lambda>_.
         deleteDoc profiles_update profileRef)))))"

section \<open>The statements about the stores\<close>

text \<open>
  A profile refers to a team when its \<^verbatim>\<open>teamId\<close> names a team document that lists the
  user among its members. The one-team property of a store: no document has the empty id,
  and every profile holds either no team id or the id of a team that lists the user.
\<close>

definition listedIn :: "store \<Rightarrow> string \<Rightarrow> string \<Rightarrow> bool" where
  "listedIn s uid t =
     (case map_of (teams s) t of
        None \<Rightarrow> False
      | Some tm \<Rightarrow> uid \<in> set (map userId (members tm)))"

definition oneTeam :: "store \<Rightarrow> bool" where
  "oneTeam s =
     ([] \<notin> set (map fst (profiles s)) \<and> [] \<notin> set (map fst (teams s)) \<and>
      list_all (\<lambda>uid. case map_of (profiles s) uid of
                         None \<Rightarrow> True
                       | Some p \<Rightarrow> (case teamId p of None \<Rightarrow> True | Some t \<Rightarrow> listedIn s uid t))
               (map fst (profiles s)))"

definition oneTeamOn :: "(string \<rightharpoonup> UserProfile) \<Rightarrow> (string \<rightharpoonup> Team) \<Rightarrow> bool" where
  \<comment> \<open>the same property, read off the two collections as maps\<close>
  "oneTeamOn P T =
     (P [] = None \<and> T [] = None \<and>
      (\<forall>uid p t. P uid = Some p \<longrightarrow> teamId p = Some t \<longrightarrow>
         (\<exists>tm. T t = Some tm \<and> uid \<in> userId ` set (members tm))))"

text \<open>Every team has at most \<^verbatim>\<open>maxMembers\<close> members.\<close>

definition withinCapacity :: "store \<Rightarrow> bool" where
  "withinCapacity s =
     list_all (\<lambda>tid. case map_of (teams s) tid of
                         None \<Rightarrow> True
                       | Some t \<Rightarrow> real (length (members t)) \<le> maxMembers t)
              (map fst (teams s))"

definition capacityOn :: "(string \<rightharpoonup> Team) \<Rightarrow> bool" where
  "capacityOn T = (\<forall>tid t. T tid = Some t \<longrightarrow> real (length (members t)) \<le> maxMembers t)"

text \<open>The \<^verbatim>\<open>maxMembers\<close> of every team is a whole number.\<close>

definition whole :: "real \<Rightarrow> bool" where
  "whole x = (x = of_int \<lfloor>x\<rfloor>)"

definition wholeCapacity :: "store \<Rightarrow> bool" where
  "wholeCapacity s =
     list_all (\<lambda>tid. case map_of (teams s) tid of
                         None \<Rightarrow> True
                       | Some t \<Rightarrow> whole (maxMembers t))
              (map fst (teams s))"

definition wholeOn :: "(string \<rightharpoonup> Team) \<Rightarrow> bool" where
  "wholeOn T = (\<forall>tid t. T tid = Some t \<longrightarrow> whole (maxMembers t))"

text \<open>The pending invitations of a store carry pairwise different (sender, team) pairs.\<close>

definition pendingPairs :: "(string \<times> Invitation) list \<Rightarrow> (string \<times> string) list" where
  "pendingPairs al =
     map (\<lambda>(i, x). (fromUserId x, invTeamId x)) (filter (\<lambda>(i, x). status x = pending) al)"

definition onePending :: "store \<Rightarrow> bool" where
  "onePending s = distinct (pendingPairs (invitations s))"

text \<open>The user who would join the team of an invitation: the sender of a join request,
  the target of an invite (\<^verbatim>\<open>joiningUserId\<close> in \<^verbatim>\<open>respondToInvitation\<close>).\<close>

definition joiner :: "Invitation \<Rightarrow> string" where
  "joiner x = (if invType x = join_request then fromUserId x else toUserId x)"

text \<open>What the query \<^verbatim>\<open>existingQuery\<close> of \<^verbatim>\<open>sendInvitation\<close> finds for the data \<open>d\<close>: the
  pending invitations of the same sender for the same team.\<close>

definition existingPending :: "store \<Rightarrow> Invitation \<Rightarrow> (string \<times> Invitation) list" where
  "existingPending s d =
     filter (\<lambda>(i, x). fromUserId x = fromUserId d \<and> invTeamId x = invTeamId d
                      \<and> status x = pending) (invitations s)"

text \<open>The conversations of a store whose participants include both users, in query
  order.\<close>

definition conversationsOf :: "store \<Rightarrow> string \<Rightarrow> string \<Rightarrow> (string \<times> Conversation) list" where
  "conversationsOf s user1Id user2Id =
     filter (\<lambda>(i, c). user1Id \<in> set (participants c) \<and> user2Id \<in> set (participants c))
       (conversations s)"

section \<open>A small store to run the functions on\<close>

definition ann :: UserProfile where
  "ann = \<lparr>fullName = Some ''Ann'', avatar = Str ''ann.png'', primaryRole = Str ''Dev'',
           teamId = Some ''t1'', isTeamLeader = True\<rparr>"

definition bob :: UserProfile where
  "bob = \<lparr>fullName = Some ''Bob'', avatar = Str ''bob.png'', primaryRole = Str ''Design'',
           teamId = None, isTeamLeader = False\<rparr>"

definition team1 :: Team where
  "team1 = \<lparr>name = ''One'', description = ''first'', leaderId = ''ann'', leaderName = ''Ann'',
             maxMembers = 2,
             members = [\<lparr>userId = ''ann'', role = ''Team Leader'', userName = ''Ann''\<rparr>],
             rolesNeeded = [], teamStatus = ''forming''\<rparr>"

definition invite1 :: Invitation where
  "invite1 = \<lparr>invType = invite, fromUserId = ''ann'', fromUserName = ''Ann'',
               toUserId = ''bob'', toUserName = ''Bob'', invTeamId = ''t1'',
               invTeamName = ''One'', invMessage = ''join us'', status = pending\<rparr>"

definition store0 :: store where
  "store0 = \<lparr>configured = True, ignoreUndefinedProperties = False,
              profiles = [(''ann'', ann), (''bob'', bob)],
              teams = [(''t1'', team1)],
              teamMembers = [], invitations = [], notifications = [], posts = [],
              conversations = [], messages = [],
              autoId = (\<lambda>k. ''id'' @ replicate k (CHR ''x'')), issued = 0\<rparr>"

definition store1 :: store where
  \<comment> \<open>the same store after Ann has invited Bob\<close>
  "store1 = store0\<lparr>invitations := [(''i1'', invite1)]\<rparr>"

definition store2 :: store where
  \<comment> \<open>the same store, the team having one place only\<close>
  "store2 = store1\<lparr>teams := [(''t1'', team1\<lparr>maxMembers := 1\<rparr>)]\<rparr>"

definition joinRequest1 :: Invitation where
  "joinRequest1 = \<lparr>invType = join_request, fromUserId = ''bob'', fromUserName = ''Bob'',
                    toUserId = ''ann'', toUserName = ''Ann'', invTeamId = ''t1'',
                    invTeamName = ''One'', invMessage = ''let me in'', status = pending\<rparr>"

definition store3 :: store where
  \<comment> \<open>the store with the invitation and two conversations: Ann with Bob, Ann with herself\<close>
  "store3 = store1\<lparr>conversations :=
              [(''c1'', newConversation ''ann'' ''bob'' (Some ann) (Some bob)),
               (''c2'', newConversation ''ann'' ''ann'' (Some ann) (Some ann))]\<rparr>"

definition cy :: UserProfile where
  \<comment> \<open>a user who has not set an avatar: the document has no such field\<close>
  "cy = \<lparr>fullName = Some ''Cy'', avatar = Undefined, primaryRole = Str ''Dev'',
          teamId = None, isTeamLeader = False\<rparr>"

definition store4 :: store where
  \<comment> \<open>the first store with Cy in the place of Bob\<close>
  "store4 = store0\<lparr>profiles := [(''ann'', ann), (''cy'', cy)]\<rparr>"

definition store5 :: store where
  \<comment> \<open>the first store after Bob has asked to join the team of Ann\<close>
  "store5 = store0\<lparr>invitations := [(''j1'', joinRequest1)]\<rparr>"

definition store6 :: store where
  \<comment> \<open>the first store, the team allowing one member and a half\<close>
  "store6 = store0\<lparr>teams := [(''t1'', team1\<lparr>maxMembers := 3 / 2\<rparr>)]\<rparr>"

definition store7 :: store where
  \<comment> \<open>the store with the invitation, the team allowing no member at all\<close>
  "store7 = store1\<lparr>teams := [(''t1'', team1\<lparr>maxMembers := 0\<rparr>)]\<rparr>"

definition invite2 :: Invitation where
  \<comment> \<open>Ann invites Cy\<close>
  "invite2 = invite1\<lparr>toUserId := ''cy'', toUserName := ''Cy''\<rparr>"

definition store8 :: store where
  "store8 = store4\<lparr>invitations := [(''i2'', invite2)]\<rparr>"

section \<open>How the building blocks run\<close>

lemma ok_apply [simp]: "ok x s = (Inr x, s)"
  by (simp add: ok_def)

lemma throw_apply [simp]: "throw e s = (Inl e, s)"
  by (simp add: throw_def)

lemma await_apply: "await m f s = (case m s of (Inl e, s') \<Rightarrow> (Inl e, s') | (Inr x, s') \<Rightarrow> f x s')"
  by (simp add: await_def)

lemma await_Inr: "m s = (Inr x, s') \<Longrightarrow> await m f s = f x s'"
  by (simp add: await_def)

lemma await_Inl: "m s = (Inl e, s') \<Longrightarrow> await m f s = (Inl e, s')"
  by (simp add: await_def)

lemma guarded_apply: "guarded v m s = (if configured s then m s else (Inr v, s))"
  by (simp add: guarded_def)

lemma doc_apply: "doc i s = (if i = [] then (Inl InvalidDocumentReference, s) else (Inr i, s))"
  by (simp add: doc_def)

lemma getProfile_apply:
  "getProfile uid s =
     (if configured s
      then (if uid = [] then (Inl InvalidDocumentReference, s)
            else (Inr (map_of (profiles s) uid), s))
      else (Inr None, s))"
  by (simp add: getProfile_def guarded_apply await_apply doc_apply getDoc_def)

lemma getTeam_apply:
  "getTeam tid s =
     (if configured s
      then (if tid = [] then (Inl InvalidDocumentReference, s)
            else (Inr (map_of (teams s) tid), s))
      else (Inr None, s))"
  by (simp add: getTeam_def guarded_apply await_apply doc_apply getDoc_def)

lemma updateProfile_apply:
  "updateProfile uid patch s =
     (if \<not> configured s then (Inr (), s)
      else if uid = [] then (Inl UserIdRequired, s)
      else case map_of (profiles s) uid of
             None \<Rightarrow> (Inl NoDocumentToUpdate, s)
           | Some p \<Rightarrow> (Inr (), profiles_update (AList.update uid
                 (p\<lparr>teamId := p_teamId patch, isTeamLeader := p_isTeamLeader patch\<rparr>)) s))"
  by (simp add: updateProfile_def guarded_apply await_apply doc_apply updateDoc_def)

lemma updateTeam_apply:
  "updateTeam tid ms s =
     (if \<not> configured s then (Inr (), s)
      else if tid = [] then (Inl InvalidDocumentReference, s)
      else case map_of (teams s) tid of
             None \<Rightarrow> (Inl NoDocumentToUpdate, s)
           | Some t \<Rightarrow> (Inr (), teams_update (AList.update tid (t\<lparr>members := ms\<rparr>)) s))"
  by (simp add: updateTeam_def guarded_apply await_apply doc_apply updateDoc_def)

lemma addDoc_apply:
  "addDoc upd neverUndefined d s =
     (Inr (autoId s (issued s)), upd (AList.update (autoId s (issued s)) d) (s\<lparr>issued := Suc (issued s)\<rparr>))"
  by (simp add: addDoc_def neverUndefined_def Let_def)

lemma createFeedPost_apply:
  "createFeedPost d s =
     (if configured s
      then (if undefinedInPost d \<and> \<not> ignoreUndefinedProperties s
            then (Inl UnsupportedFieldValue, s)
            else (Inr (autoId s (issued s)),
                  posts_update (AList.update (autoId s (issued s)) d)
                    (s\<lparr>issued := Suc (issued s)\<rparr>)))
      else (Inr [], s))"
  by (simp add: createFeedPost_def guarded_apply addDoc_def Let_def)

lemma undefinedInPost_teamCreatedPost:
  "undefinedInPost (teamCreatedPost d pr n i) =
     (optionalField pr avatar = Undefined \<or> optionalField pr primaryRole = Undefined)"
  by (simp add: undefinedInPost_def teamCreatedPost_def)

lemma undefinedInPost_memberJoinedPost:
  "undefinedInPost (memberJoinedPost t pr n tid uid r) =
     (optionalField pr avatar = Undefined \<or> optionalField pr primaryRole = Undefined)"
  by (simp add: undefinedInPost_def memberJoinedPost_def)

lemma optionalField_Some: "optionalField (Some p) f = f p"
  by (simp add: optionalField_def)

lemma optionalField_None: "optionalField None f = Undefined"
  by (simp add: optionalField_def)

lemmas undefinedInPost_simps =
  undefinedInPost_teamCreatedPost undefinedInPost_memberJoinedPost
  optionalField_Some optionalField_None

lemma createNotification_apply:
  "createNotification d s =
     (if configured s
      then (Inr (),
            notifications_update (AList.update (autoId s (issued s)) (d\<lparr>n_read := False\<rparr>))
              (s\<lparr>issued := Suc (issued s)\<rparr>))
      else (Inr (), s))"
  by (simp add: createNotification_def guarded_apply addDoc_apply await_apply)

lemma deleteDoc_apply: "deleteDoc upd r s = (Inr (), upd (AList.delete r) s)"
  by (simp add: deleteDoc_def)

lemma getDocs_apply: "getDocs coll P s = (Inr (filter P (coll s)), s)"
  by (simp add: getDocs_def)

section \<open>The one-team property, step by step\<close>

lemma oneTeam_iff: "oneTeam s \<longleftrightarrow> oneTeamOn (map_of (profiles s)) (map_of (teams s))"
proof -
  have keys: "\<And>al :: (string \<times> 'v) list. ([] \<notin> set (map fst al)) = (map_of al [] = None)"
    by (simp add: map_of_eq_None_iff)
  have "list_all (\<lambda>uid. case map_of (profiles s) uid of
                         None \<Rightarrow> True
                       | Some p \<Rightarrow> (case teamId p of None \<Rightarrow> True | Some t \<Rightarrow> listedIn s uid t))
               (map fst (profiles s))
        \<longleftrightarrow> (\<forall>uid p t. map_of (profiles s) uid = Some p \<longrightarrow> teamId p = Some t \<longrightarrow>
         (\<exists>tm. map_of (teams s) t = Some tm \<and> uid \<in> userId ` set (members tm)))"
    (is "?L \<longleftrightarrow> ?R")
  proof
    assume L: ?L
    show ?R
    proof (intro allI impI)
      fix uid p t
      assume p: "map_of (profiles s) uid = Some p" and t: "teamId p = Some t"
      from p have "uid \<in> set (map fst (profiles s))"
        by (metis map_of_eq_None_iff option.distinct(1) set_map)
      with L p t have "listedIn s uid t"
        by (auto simp add: list_all_iff)
      then show "\<exists>tm. map_of (teams s) t = Some tm \<and> uid \<in> userId ` set (members tm)"
        by (auto simp add: listedIn_def split: option.splits)
    qed
  next
    assume R: ?R
    show ?L
      unfolding list_all_iff
    proof
      fix uid assume "uid \<in> set (map fst (profiles s))"
      show "case map_of (profiles s) uid of None \<Rightarrow> True
            | Some p \<Rightarrow> (case teamId p of None \<Rightarrow> True | Some t \<Rightarrow> listedIn s uid t)"
        using R by (fastforce simp add: listedIn_def split: option.splits)
    qed
  qed
  then show ?thesis
    unfolding oneTeam_def oneTeamOn_def keys by simp
qed

lemma oneTeamOn_members:
  "oneTeamOn P T \<Longrightarrow> T tid = Some t \<Longrightarrow> userId ` set (members t) \<subseteq> userId ` set ms \<Longrightarrow>
   oneTeamOn P (T(tid \<mapsto> t\<lparr>members := ms\<rparr>))"
  unfolding oneTeamOn_def by (auto; fastforce)

lemma oneTeamOn_join:
  "oneTeamOn P T \<Longrightarrow> T tid = Some t \<Longrightarrow> uid \<in> userId ` set (members t) \<Longrightarrow> uid \<noteq> [] \<Longrightarrow>
   teamId p' = Some tid \<Longrightarrow> oneTeamOn (P(uid \<mapsto> p')) T"
  unfolding oneTeamOn_def by (auto; fastforce)

lemma oneTeamOn_leave:
  "oneTeamOn P T \<Longrightarrow> uid \<noteq> [] \<Longrightarrow> teamId p' = None \<Longrightarrow> oneTeamOn (P(uid \<mapsto> p')) T"
  unfolding oneTeamOn_def by (auto; fastforce)

lemma oneTeamOn_remove:
  "oneTeamOn P T \<Longrightarrow> T tid = Some t \<Longrightarrow> P uid = None \<or> (\<exists>p. P uid = Some p \<and> teamId p \<noteq> Some tid) \<Longrightarrow>
   oneTeamOn P (T(tid \<mapsto> t\<lparr>members := filter (\<lambda>m. userId m \<noteq> uid) (members t)\<rparr>))"
  unfolding oneTeamOn_def by (auto; fastforce)

lemma oneTeamOn_new_team:
  "oneTeamOn P T \<Longrightarrow> T tid = None \<Longrightarrow> tid \<noteq> [] \<Longrightarrow> oneTeamOn P (T(tid \<mapsto> t))"
  unfolding oneTeamOn_def by (auto; fastforce)

lemma oneTeamOn_delete_team:
  "oneTeamOn P T \<Longrightarrow> (\<forall>uid p. P uid = Some p \<longrightarrow> teamId p \<noteq> Some tid) \<Longrightarrow>
   oneTeamOn P (T(tid := None))"
  unfolding oneTeamOn_def by (auto; fastforce)

lemma oneTeamOn_add_member:
  "oneTeamOn P T \<Longrightarrow> T tid = Some t \<Longrightarrow> uid \<noteq> [] \<Longrightarrow> teamId p' = Some tid \<Longrightarrow>
   oneTeamOn (P(uid \<mapsto> p'))
     (T(tid \<mapsto> t\<lparr>members := members t @ [\<lparr>userId = uid, role = r, userName = n\<rparr>]\<rparr>))"
  unfolding oneTeamOn_def by (auto; fastforce)

lemma addTeamMember_oneTeam: "oneTeam s \<Longrightarrow> oneTeam (snd (addTeamMember tid uid r s))"
  unfolding oneTeam_iff
  by (auto simp add: addTeamMember_def guarded_apply await_apply getProfile_apply getTeam_apply
        updateTeam_apply updateProfile_apply createFeedPost_apply addDoc_apply Let_def
        update_conv'
        intro: oneTeamOn_members oneTeamOn_add_member
        split: option.splits)

lemma forEach_delete_teamMembers:
  "forEach (\<lambda>(i, d). deleteDoc teamMembers_update i) xs s
     = (Inr (), teamMembers_update (fold AList.delete (map fst xs)) s)"
  by (induction xs arbitrary: s) (auto simp add: await_apply deleteDoc_def)

lemma forEach_delete_invitations:
  "forEach (\<lambda>(i, d). deleteDoc invitations_update i) xs s
     = (Inr (), invitations_update (fold AList.delete (map fst xs)) s)"
  by (induction xs arbitrary: s) (auto simp add: await_apply deleteDoc_def)

lemma forEach_delete_posts:
  "forEach (\<lambda>(i, d). deleteDoc posts_update i) xs s
     = (Inr (), posts_update (fold AList.delete (map fst xs)) s)"
  by (induction xs arbitrary: s) (auto simp add: await_apply deleteDoc_def)

lemma oneTeamOn_remove_member:
  "oneTeamOn P T \<Longrightarrow> T tid = Some t \<Longrightarrow> uid \<noteq> [] \<Longrightarrow> teamId p' = None \<Longrightarrow>
   oneTeamOn (P(uid \<mapsto> p'))
     (T(tid \<mapsto> t\<lparr>members := filter (\<lambda>m. userId m \<noteq> uid) (members t)\<rparr>))"
  unfolding oneTeamOn_def by (auto; fastforce)

lemma oneTeamOn_remove_absent:
  "oneTeamOn P T \<Longrightarrow> T tid = Some t \<Longrightarrow> P uid = None \<Longrightarrow>
   oneTeamOn P (T(tid \<mapsto> t\<lparr>members := filter (\<lambda>m. userId m \<noteq> uid) (members t)\<rparr>))"
  unfolding oneTeamOn_def by (auto; fastforce)

lemma oneTeamOn_empty_id: "oneTeamOn P T \<Longrightarrow> P [] = None"
  unfolding oneTeamOn_def by simp

lemma removeTeamMember_oneTeam: "oneTeam s \<Longrightarrow> oneTeam (snd (removeTeamMember tid uid s))"
  unfolding oneTeam_iff
  by (auto simp add: removeTeamMember_def guarded_apply await_apply getTeam_apply
        updateTeam_apply updateProfile_apply getDocs_def forEach_delete_teamMembers
        update_conv' oneTeamOn_empty_id
        intro: oneTeamOn_remove_member oneTeamOn_remove_absent
        split: option.splits)

lemma oneTeamOn_create:
  "oneTeamOn P T \<Longrightarrow> T tid = None \<Longrightarrow> tid \<noteq> [] \<Longrightarrow> lid \<noteq> [] \<Longrightarrow> teamId p' = Some tid \<Longrightarrow>
   lid \<in> userId ` set (members t) \<Longrightarrow> oneTeamOn (P(lid \<mapsto> p')) (T(tid \<mapsto> t))"
  unfolding oneTeamOn_def by (auto; fastforce)

lemma createTeam_oneTeam:
  "oneTeam s \<Longrightarrow> autoId s (issued s) \<noteq> [] \<Longrightarrow> autoId s (issued s) \<notin> set (map fst (teams s)) \<Longrightarrow>
   oneTeam (snd (createTeam d s))"
  unfolding oneTeam_iff
  by (auto simp add: createTeam_def guarded_apply await_apply getProfile_apply
        updateProfile_apply createFeedPost_apply addDoc_apply Let_def
        update_conv' map_of_eq_None_iff
        intro: oneTeamOn_create oneTeamOn_new_team
        split: option.splits)

lemma forEach_clear:
  "configured s \<Longrightarrow>
   forEach (\<lambda>m. updateProfile (userId m) \<lparr>p_teamId = None, p_isTeamLeader = False\<rparr>) ms s = (r, s') \<Longrightarrow>
   configured s' \<and> teams s' = teams s \<and>
   (\<forall>uid. map_of (profiles s') uid = map_of (profiles s) uid
          \<or> (uid \<noteq> [] \<and> (\<exists>p'. map_of (profiles s') uid = Some p' \<and> teamId p' = None))) \<and>
   (r = Inr () \<longrightarrow> (\<forall>m \<in> set ms. \<exists>p'. map_of (profiles s') (userId m) = Some p' \<and> teamId p' = None))"
proof (induction ms arbitrary: s)
  case Nil
  then show ?case by auto
next
  case (Cons m ms)
  show ?case
  proof (cases "userId m \<noteq> [] \<and> map_of (profiles s) (userId m) \<noteq> None")
    case False
    with Cons.prems(1) have
      "\<exists>e. updateProfile (userId m) \<lparr>p_teamId = None, p_isTeamLeader = False\<rparr> s = (Inl e, s)"
      by (cases "userId m = []") (auto simp add: updateProfile_apply)
    then obtain e where
      step: "updateProfile (userId m) \<lparr>p_teamId = None, p_isTeamLeader = False\<rparr> s = (Inl e, s)"
      by blast
    have "forEach (\<lambda>m. updateProfile (userId m) \<lparr>p_teamId = None, p_isTeamLeader = False\<rparr>) (m # ms) s
            = (Inl e, s)"
      using step by (simp add: await_def)
    with Cons.prems show ?thesis by auto
  next
    case True
    then obtain p where p: "map_of (profiles s) (userId m) = Some p" and ne: "userId m \<noteq> []"
      by auto
    define s1 where "s1 = profiles_update (AList.update (userId m)
        (p\<lparr>teamId := None, isTeamLeader := False\<rparr>)) s"
    have step: "updateProfile (userId m) \<lparr>p_teamId = None, p_isTeamLeader = False\<rparr> s = (Inr (), s1)"
      using Cons.prems(1) p ne by (simp add: updateProfile_apply s1_def)
    have rest: "forEach (\<lambda>m. updateProfile (userId m) \<lparr>p_teamId = None, p_isTeamLeader = False\<rparr>) ms s1 = (r, s')"
      using Cons.prems(2) step by (simp add: await_def)
    have c1: "configured s1" using Cons.prems(1) by (simp add: s1_def)
    note IH = Cons.IH [OF c1 rest]
    have P1: "map_of (profiles s1) = (map_of (profiles s))(userId m \<mapsto> p\<lparr>teamId := None, isTeamLeader := False\<rparr>)"
      by (simp add: s1_def update_conv')
    have T1: "teams s1 = teams s" by (simp add: s1_def)
    show ?thesis
    proof (intro conjI)
      show "configured s'" using IH by simp
      show "teams s' = teams s" using IH T1 by simp
      show "\<forall>uid. map_of (profiles s') uid = map_of (profiles s) uid
          \<or> (uid \<noteq> [] \<and> (\<exists>p'. map_of (profiles s') uid = Some p' \<and> teamId p' = None))"
      proof
        fix uid
        from IH have "map_of (profiles s') uid = map_of (profiles s1) uid
          \<or> (uid \<noteq> [] \<and> (\<exists>p'. map_of (profiles s') uid = Some p' \<and> teamId p' = None))"
          by blast
        then show "map_of (profiles s') uid = map_of (profiles s) uid
          \<or> (uid \<noteq> [] \<and> (\<exists>p'. map_of (profiles s') uid = Some p' \<and> teamId p' = None))"
          using P1 ne by (cases "uid = userId m") auto
      qed
      show "r = Inr () \<longrightarrow> (\<forall>m \<in> set (m # ms). \<exists>p'. map_of (profiles s') (userId m) = Some p' \<and> teamId p' = None)"
      proof (intro impI ballI)
        fix x assume r: "r = Inr ()" and x: "x \<in> set (m # ms)"
        show "\<exists>p'. map_of (profiles s') (userId x) = Some p' \<and> teamId p' = None"
        proof (cases "x \<in> set ms")
          case True
          with IH r show ?thesis by blast
        next
          case False
          with x have "x = m" by simp
          moreover from IH have "map_of (profiles s') (userId m) = map_of (profiles s1) (userId m)
            \<or> (\<exists>p'. map_of (profiles s') (userId m) = Some p' \<and> teamId p' = None)"
            by blast
          ultimately show ?thesis using P1 by auto
        qed
      qed
    qed
  qed
qed

lemma oneTeamOn_cleared:
  "oneTeamOn P T \<Longrightarrow>
   (\<forall>uid. P' uid = P uid \<or> (uid \<noteq> [] \<and> (\<exists>p'. P' uid = Some p' \<and> teamId p' = None))) \<Longrightarrow>
   oneTeamOn P' T"
  unfolding oneTeamOn_def
  by (metis option.distinct(1) option.inject)

lemma terminateTeam_no_write:
  "\<not> configured s \<or> tid = [] \<or> map_of (teams s) tid = None
     \<or> (\<exists>t. map_of (teams s) tid = Some t \<and> leaderId t \<noteq> lid) \<Longrightarrow>
   snd (terminateTeam tid lid s) = s"
  by (auto simp add: terminateTeam_def guarded_apply await_apply getTeam_apply)

lemma terminateTeam_run:
  assumes "configured s" and "tid \<noteq> []" and "map_of (teams s) tid = Some t"
    and "leaderId t = lid"
    and "forEach (\<lambda>m. updateProfile (userId m) \<lparr>p_teamId = None, p_isTeamLeader = False\<rparr>)
           (members t) s = (r, s1)"
  shows "terminateTeam tid lid s =
     (case r of
        Inl e \<Rightarrow> (Inl e, s1)
      | Inr _ \<Rightarrow>
          (Inr (),
           teams_update (AList.delete tid)
             (invitations_update
                (fold AList.delete
                   (map fst (filter (\<lambda>(i, d). invTeamId d = tid) (invitations s1))))
                (teamMembers_update
                   (fold AList.delete
                      (map fst (filter (\<lambda>(i, d). tm_teamId d = tid) (teamMembers s1))))
                   s1))))"
  using assms
  by (simp add: terminateTeam_def guarded_apply await_apply getTeam_apply getDocs_apply
        forEach_delete_teamMembers forEach_delete_invitations doc_apply deleteDoc_apply
        split: sum.splits)

lemma terminateTeam_oneTeam: "oneTeam s \<Longrightarrow> oneTeam (snd (terminateTeam tid lid s))"
proof -
  assume inv: "oneTeam s"
  show ?thesis
  proof (cases "configured s \<and> tid \<noteq> [] \<and> (\<exists>t. map_of (teams s) tid = Some t \<and> leaderId t = lid)")
    case False
    then have "snd (terminateTeam tid lid s) = s"
      by (intro terminateTeam_no_write) auto
    with inv show ?thesis by simp
  next
    case True
    then obtain t where c: "configured s" and ne: "tid \<noteq> []"
      and t: "map_of (teams s) tid = Some t" and l: "leaderId t = lid"
      by blast
    obtain r s1 where loop:
      "forEach (\<lambda>m. updateProfile (userId m) \<lparr>p_teamId = None, p_isTeamLeader = False\<rparr>)
         (members t) s = (r, s1)"
      by force
    note run = terminateTeam_run [OF c ne t l loop]
    note facts = forEach_clear [OF c loop]
    from inv have P: "oneTeamOn (map_of (profiles s)) (map_of (teams s))"
      by (simp add: oneTeam_iff)
    have P1: "oneTeamOn (map_of (profiles s1)) (map_of (teams s))"
      using P facts by (intro oneTeamOn_cleared [OF P]) blast
    show ?thesis
    proof (cases r)
      case (Inl e)
      with run have "snd (terminateTeam tid lid s) = s1" by simp
      with P1 facts show ?thesis by (simp add: oneTeam_iff)
    next
      case (Inr u)
      have gone: "\<forall>uid p. map_of (profiles s1) uid = Some p \<longrightarrow> teamId p \<noteq> Some tid"
      proof (intro allI impI notI)
        fix uid p
        assume p: "map_of (profiles s1) uid = Some p" and tp: "teamId p = Some tid"
        from facts have "map_of (profiles s1) uid = map_of (profiles s) uid
           \<or> (\<exists>p'. map_of (profiles s1) uid = Some p' \<and> teamId p' = None)"
          by blast
        with p tp have "map_of (profiles s) uid = Some p" by auto
        with P tp t have "uid \<in> userId ` set (members t)"
          unfolding oneTeamOn_def by fastforce
        then obtain m where "m \<in> set (members t)" and "uid = userId m" by blast
        with facts Inr have "\<exists>p'. map_of (profiles s1) uid = Some p' \<and> teamId p' = None"
          by auto
        with p tp show False by auto
      qed
      have "oneTeamOn (map_of (profiles s1)) ((map_of (teams s))(tid := None))"
        by (rule oneTeamOn_delete_team [OF P1 gone])
      with run Inr facts show ?thesis
        by (simp add: oneTeam_iff delete_conv')
    qed
  qed
qed

lemma addTeamMember_unrelated:
  "configured (snd (addTeamMember tid uid r s)) = configured s"
  "invitations (snd (addTeamMember tid uid r s)) = invitations s"
  "notifications (snd (addTeamMember tid uid r s)) = notifications s"
  "autoId (snd (addTeamMember tid uid r s)) = autoId s"
  by (auto simp add: addTeamMember_def guarded_apply await_apply getProfile_apply getTeam_apply
        updateTeam_apply updateProfile_apply createFeedPost_apply addDoc_apply Let_def
        split: option.splits)

lemma respond_rejects_unchanged:
  assumes "configured s"
    and "i = [] \<or> (case map_of (invitations s) i of
           None \<Rightarrow> True
         | Some x \<Rightarrow>
             joiner x = [] \<or> truthy (field (map_of (profiles s) (joiner x)) teamId)
             \<or> invTeamId x = []
             \<or> (case map_of (teams s) (invTeamId x) of
                   None \<Rightarrow> True
                 | Some t \<Rightarrow> real (length (members t)) \<ge> maxMembers t))"
  shows "\<exists>e. respondToInvitation i accepted a b c s = (Inl e, s)"
  using assms
  by (auto simp add: respondToInvitation_def guarded_apply await_apply doc_apply getDoc_def
        getProfile_apply getTeam_apply joiner_def Let_def truthy_def field_def optionalField_def
        split: option.splits)

lemma respond_accept_run:
  assumes c: "configured s" and i: "i \<noteq> []" and x: "map_of (invitations s) i = Some x"
    and j: "joiner x \<noteq> []"
    and free: "\<not> truthy (field (map_of (profiles s) (joiner x)) teamId)"
    and tid: "invTeamId x \<noteq> []" and t: "map_of (teams s) (invTeamId x) = Some t"
    and room: "real (length (members t)) < maxMembers t"
    and add: "addTeamMember (invTeamId x) (joiner x)
                (orDefault (optionalField (map_of (profiles s) (joiner x)) primaryRole) (orElse ro ''Member''))
                (invitations_update (AList.update i (x\<lparr>status := accepted\<rparr>)) s) = (r2, s2)"
  shows "respondToInvitation i accepted a b ro s =
       (case r2 of
          Inl e \<Rightarrow> (Inl e, s2)
        | Inr _ \<Rightarrow>
            if toUserId x = [] then (Inl InvalidDocumentReference, s2)
            else (Inr (),
                  notifications_update
                    (AList.update (autoId s2 (issued s2))
                       (responseNotification x (map_of (profiles s2) (toUserId x)) ACCEPTED
                          (acceptedMessage x)))
                    (s2\<lparr>issued := Suc (issued s2)\<rparr>)))"
proof -
  have c2: "configured s2"
    using addTeamMember_unrelated(1) [of "invTeamId x" "joiner x"
        "orDefault (optionalField (map_of (profiles s) (joiner x)) primaryRole) (orElse ro ''Member'')"
        "invitations_update (AList.update i (x\<lparr>status := accepted\<rparr>)) s"] add c
    by simp
  have n: "responseNotification x rp ty m \<lparr>n_read := False\<rparr> = responseNotification x rp ty m"
    for rp ty m
    by (simp add: responseNotification_def Let_def)
  show ?thesis
  proof (cases "invType x = join_request")
    case True
    with c i x j free tid t room add c2 show ?thesis
      by (cases r2)
         (simp_all add: respondToInvitation_def guarded_apply await_apply doc_apply getDoc_def
          getProfile_apply getTeam_apply updateDoc_def createNotification_apply Let_def
          joiner_def n)
  next
    case False
    with c i x j free tid t room add c2 show ?thesis
      by (cases r2)
         (simp_all add: respondToInvitation_def guarded_apply await_apply doc_apply getDoc_def
          getProfile_apply getTeam_apply updateDoc_def createNotification_apply Let_def
          joiner_def n)
  qed
qed

lemma respond_reject_run:
  assumes c: "configured s" and i: "i \<noteq> []" and x: "map_of (invitations s) i = Some x"
  shows "respondToInvitation i rejected a b ro s =
       (if toUserId x = []
        then (Inl InvalidDocumentReference,
              invitations_update (AList.update i (x\<lparr>status := rejected\<rparr>)) s)
        else (Inr (),
              notifications_update
                (AList.update (autoId s (issued s))
                   (responseNotification x (map_of (profiles s) (toUserId x)) REJECTED
                      (rejectedMessage x)))
                (invitations_update (AList.update i (x\<lparr>status := rejected\<rparr>)) s
                   \<lparr>issued := Suc (issued s)\<rparr>)))"
proof -
  have n: "responseNotification x rp ty m \<lparr>n_read := False\<rparr> = responseNotification x rp ty m"
    for rp ty m
    by (simp add: responseNotification_def Let_def)
  from c i x show ?thesis
    by (simp add: respondToInvitation_def guarded_apply await_apply doc_apply getDoc_def
          getProfile_apply updateDoc_def createNotification_apply Let_def n)
qed

lemma respond_pending_run:
  assumes c: "configured s" and i: "i \<noteq> []" and x: "map_of (invitations s) i = Some x"
  shows "respondToInvitation i pending a b ro s =
       (Inr (), invitations_update (AList.update i (x\<lparr>status := pending\<rparr>)) s)"
  using assms
  by (simp add: respondToInvitation_def guarded_apply await_apply doc_apply getDoc_def
        updateDoc_def Let_def)

lemma respond_no_invitation:
  "\<not> configured s \<or> i = [] \<or> map_of (invitations s) i = None \<Longrightarrow>
   snd (respondToInvitation i st a b ro s) = s"
  by (auto simp add: respondToInvitation_def guarded_apply await_apply doc_apply getDoc_def)

lemma respondToInvitation_frame:
  "(profiles (snd (respondToInvitation i st a b ro s)) = profiles s \<and>
    teams (snd (respondToInvitation i st a b ro s)) = teams s)
   \<or> (\<exists>tid uid r s1. profiles s1 = profiles s \<and> teams s1 = teams s \<and>
         profiles (snd (respondToInvitation i st a b ro s))
           = profiles (snd (addTeamMember tid uid r s1)) \<and>
         teams (snd (respondToInvitation i st a b ro s))
           = teams (snd (addTeamMember tid uid r s1)))"
proof (cases "configured s \<and> i \<noteq> [] \<and> map_of (invitations s) i \<noteq> None")
  case False
  then have "snd (respondToInvitation i st a b ro s) = s"
    by (intro respond_no_invitation) auto
  then show ?thesis by simp
next
  case True
  then obtain x where c: "configured s" and i: "i \<noteq> []"
    and x: "map_of (invitations s) i = Some x"
    by auto
  show ?thesis
  proof (cases st)
    case pending
    then show ?thesis by (simp add: respond_pending_run [OF c i x])
  next
    case rejected
    then show ?thesis by (simp add: respond_reject_run [OF c i x])
  next
    case accepted
    show ?thesis
    proof (cases "joiner x \<noteq> [] \<and> \<not> truthy (field (map_of (profiles s) (joiner x)) teamId)
                  \<and> invTeamId x \<noteq> []
                  \<and> (\<exists>t. map_of (teams s) (invTeamId x) = Some t
                          \<and> real (length (members t)) < maxMembers t)")
      case False
      with x have "i = [] \<or> (case map_of (invitations s) i of
           None \<Rightarrow> True
         | Some x \<Rightarrow>
             joiner x = [] \<or> truthy (field (map_of (profiles s) (joiner x)) teamId)
             \<or> invTeamId x = []
             \<or> (case map_of (teams s) (invTeamId x) of
                   None \<Rightarrow> True
                 | Some t \<Rightarrow> real (length (members t)) \<ge> maxMembers t))"
        by (cases "map_of (teams s) (invTeamId x)") auto
      then have "\<exists>e. respondToInvitation i accepted a b ro s = (Inl e, s)"
        by (rule respond_rejects_unchanged [OF c])
      with accepted show ?thesis by auto
    next
      case True
      then obtain t where j: "joiner x \<noteq> []"
        and free: "\<not> truthy (field (map_of (profiles s) (joiner x)) teamId)"
        and tid: "invTeamId x \<noteq> []" and t: "map_of (teams s) (invTeamId x) = Some t"
        and room: "real (length (members t)) < maxMembers t"
        by blast
      define s1 where "s1 = invitations_update (AList.update i (x\<lparr>status := accepted\<rparr>)) s"
      define r where
        "r = orDefault (optionalField (map_of (profiles s) (joiner x)) primaryRole) (orElse ro ''Member'')"
      obtain r2 s2 where add: "addTeamMember (invTeamId x) (joiner x) r s1 = (r2, s2)"
        by force
      have s1: "profiles s1 = profiles s" "teams s1 = teams s"
        by (simp_all add: s1_def)
      have run: "respondToInvitation i accepted a b ro s =
         (case r2 of
            Inl e \<Rightarrow> (Inl e, s2)
          | Inr _ \<Rightarrow>
             if toUserId x = [] then (Inl InvalidDocumentReference, s2)
             else (Inr (),
                  notifications_update
                    (AList.update (autoId s2 (issued s2))
                       (responseNotification x (map_of (profiles s2) (toUserId x)) ACCEPTED
                          (acceptedMessage x)))
                    (s2\<lparr>issued := Suc (issued s2)\<rparr>)))"
        by (rule respond_accept_run [OF c i x j free tid t room add [unfolded r_def s1_def]])
      have res: "profiles (snd (respondToInvitation i accepted a b ro s)) = profiles s2"
                "teams (snd (respondToInvitation i accepted a b ro s)) = teams s2"
        unfolding run by (simp_all split: sum.splits)
      have s2: "snd (addTeamMember (invTeamId x) (joiner x) r s1) = s2"
        using add by simp
      show ?thesis
        unfolding accepted
        by (rule disjI2, rule exI [of _ "invTeamId x"], rule exI [of _ "joiner x"],
            rule exI [of _ r], rule exI [of _ s1]) (simp add: s1 s2 res)
    qed
  qed
qed

lemma oneTeam_cong:
  "profiles s' = profiles s \<Longrightarrow> teams s' = teams s \<Longrightarrow> oneTeam s' = oneTeam s"
  by (simp add: oneTeam_iff)

lemma respondToInvitation_oneTeam:
  assumes "oneTeam s"
  shows "oneTeam (snd (respondToInvitation i st a b ro s))"
  using respondToInvitation_frame [of i st a b ro s]
proof (elim disjE exE conjE)
  assume "profiles (snd (respondToInvitation i st a b ro s)) = profiles s"
    and "teams (snd (respondToInvitation i st a b ro s)) = teams s"
  then have "oneTeam (snd (respondToInvitation i st a b ro s)) = oneTeam s"
    by (rule oneTeam_cong)
  with assms show ?thesis by simp
next
  fix tid uid r s1
  assume s1: "profiles s1 = profiles s" "teams s1 = teams s"
    and res: "profiles (snd (respondToInvitation i st a b ro s))
                = profiles (snd (addTeamMember tid uid r s1))"
             "teams (snd (respondToInvitation i st a b ro s))
                = teams (snd (addTeamMember tid uid r s1))"
  from assms oneTeam_cong [OF s1] have "oneTeam s1" by simp
  then have "oneTeam (snd (addTeamMember tid uid r s1))" by (rule addTeamMember_oneTeam)
  with oneTeam_cong [OF res] show ?thesis by simp
qed

lemma oneTeam_store0: "oneTeam store0"
  by (simp add: oneTeam_def listedIn_def store0_def ann_def bob_def team1_def)

lemma removeTeamMember_success:
  assumes "oneTeam s" and "configured s"
    and "map_of (teams s) tid = Some t" and "map_of (profiles s) uid = Some p"
  shows "fst (removeTeamMember tid uid s) = Inr ()"
    and "map_of (profiles (snd (removeTeamMember tid uid s))) uid
           = Some (p\<lparr>teamId := None, isTeamLeader := False\<rparr>)"
    and "\<not> listedIn (snd (removeTeamMember tid uid s)) uid tid"
proof -
  from assms have ne: "tid \<noteq> []" "uid \<noteq> []"
    by (auto simp add: oneTeam_iff oneTeamOn_def)
  with assms show "fst (removeTeamMember tid uid s) = Inr ()"
    and "map_of (profiles (snd (removeTeamMember tid uid s))) uid
           = Some (p\<lparr>teamId := None, isTeamLeader := False\<rparr>)"
    and "\<not> listedIn (snd (removeTeamMember tid uid s)) uid tid"
    by (auto simp add: removeTeamMember_def guarded_apply await_apply getTeam_apply
          updateTeam_apply updateProfile_apply getDocs_apply forEach_delete_teamMembers
          update_conv' listedIn_def)
qed

lemma addTeamMember_already:
  assumes "oneTeam s" and "configured s"
    and "map_of (profiles s) uid = Some p" and "teamId p \<noteq> None"
  shows "addTeamMember tid uid r s = (Inl UserAlreadyInTeam, s)"
proof -
  from assms obtain t where t: "teamId p = Some t" by auto
  with assms have "t \<noteq> []" "uid \<noteq> []"
    by (fastforce simp add: oneTeam_iff oneTeamOn_def)+
  with assms t show ?thesis
    by (simp add: addTeamMember_def guarded_apply await_apply getProfile_apply
          truthy_def field_def optionalField_def)
qed

lemma update_fresh: "k \<notin> fst ` set al \<Longrightarrow> AList.update k v al = al @ [(k, v)]"
  by (induction al) auto

lemma createTeam_success:
  assumes "configured s" and "leaderId d \<noteq> []"
    and "map_of (profiles s) (leaderId d) = Some p"
    and "ignoreUndefinedProperties s \<or> (avatar p \<noteq> Undefined \<and> primaryRole p \<noteq> Undefined)"
  shows "fst (createTeam d s) = Inr (autoId s (issued s))"
    and "teams (snd (createTeam d s)) =
           AList.update (autoId s (issued s))
             (d\<lparr>leaderName := orElse (fullName p) ''User'',
                members := [\<lparr>userId = leaderId d, role = ''Team Leader'',
                             userName = orElse (fullName p) ''User''\<rparr>]\<rparr>)
             (teams s)"
    and "profiles (snd (createTeam d s)) =
           AList.update (leaderId d)
             (p\<lparr>teamId := Some (autoId s (issued s)), isTeamLeader := True\<rparr>) (profiles s)"
    and "posts (snd (createTeam d s)) =
           AList.update (autoId s (Suc (issued s)))
             (teamCreatedPost d (Some p) (orElse (fullName p) ''User'') (autoId s (issued s)))
             (posts s)"
  using assms
  by (auto simp add: createTeam_def guarded_apply await_apply getProfile_apply
        updateProfile_apply createFeedPost_apply addDoc_apply Let_def field_def
        undefinedInPost_simps)

lemma createTeam_post_rejected:
  assumes "configured s" and "leaderId d \<noteq> []"
    and "map_of (profiles s) (leaderId d) = Some p"
    and "\<not> ignoreUndefinedProperties s"
    and "avatar p = Undefined \<or> primaryRole p = Undefined"
  shows "fst (createTeam d s) = Inl UnsupportedFieldValue"
    and "teams (snd (createTeam d s)) =
           AList.update (autoId s (issued s))
             (d\<lparr>leaderName := orElse (fullName p) ''User'',
                members := [\<lparr>userId = leaderId d, role = ''Team Leader'',
                             userName = orElse (fullName p) ''User''\<rparr>]\<rparr>)
             (teams s)"
    and "profiles (snd (createTeam d s)) =
           AList.update (leaderId d)
             (p\<lparr>teamId := Some (autoId s (issued s)), isTeamLeader := True\<rparr>) (profiles s)"
    and "posts (snd (createTeam d s)) = posts s"
  using assms
  by (auto simp add: createTeam_def guarded_apply await_apply getProfile_apply
        updateProfile_apply createFeedPost_apply addDoc_apply Let_def field_def
        undefinedInPost_simps)

lemma addTeamMember_success:
  assumes "configured s" and "uid \<noteq> []" and "map_of (profiles s) uid = Some p"
    and "\<not> truthy (teamId p)" and "tid \<noteq> []" and "map_of (teams s) tid = Some t"
    and "real (length (members t)) < maxMembers t"
    and "ignoreUndefinedProperties s \<or> (avatar p \<noteq> Undefined \<and> primaryRole p \<noteq> Undefined)"
  shows "fst (addTeamMember tid uid r s) = Inr ()"
    and "teams (snd (addTeamMember tid uid r s)) =
           AList.update tid
             (t\<lparr>members := members t @
                  [\<lparr>userId = uid, role = r, userName = orElse (fullName p) ''User''\<rparr>]\<rparr>)
             (teams s)"
    and "profiles (snd (addTeamMember tid uid r s)) =
           AList.update uid (p\<lparr>teamId := Some tid, isTeamLeader := False\<rparr>) (profiles s)"
    and "issued (snd (addTeamMember tid uid r s)) = Suc (Suc (issued s))"
  using assms
  by (auto simp add: addTeamMember_def guarded_apply await_apply getProfile_apply getTeam_apply
        updateTeam_apply updateProfile_apply createFeedPost_apply addDoc_apply Let_def field_def
        undefinedInPost_simps)

lemma addTeamMember_post_rejected:
  assumes "configured s" and "uid \<noteq> []" and "map_of (profiles s) uid = Some p"
    and "\<not> truthy (teamId p)" and "tid \<noteq> []" and "map_of (teams s) tid = Some t"
    and "real (length (members t)) < maxMembers t"
    and "\<not> ignoreUndefinedProperties s"
    and "avatar p = Undefined \<or> primaryRole p = Undefined"
  shows "fst (addTeamMember tid uid r s) = Inl UnsupportedFieldValue"
    and "teams (snd (addTeamMember tid uid r s)) =
           AList.update tid
             (t\<lparr>members := members t @
                  [\<lparr>userId = uid, role = r, userName = orElse (fullName p) ''User''\<rparr>]\<rparr>)
             (teams s)"
    and "profiles (snd (addTeamMember tid uid r s)) =
           AList.update uid (p\<lparr>teamId := Some tid, isTeamLeader := False\<rparr>) (profiles s)"
    and "issued (snd (addTeamMember tid uid r s)) = issued s"
  using assms
  by (auto simp add: addTeamMember_def guarded_apply await_apply getProfile_apply getTeam_apply
        updateTeam_apply updateProfile_apply createFeedPost_apply addDoc_apply Let_def field_def
        undefinedInPost_simps)

lemma respond_accept_success:
  assumes c: "configured s" and i: "i \<noteq> []" and x: "map_of (invitations s) i = Some x"
    and to: "toUserId x \<noteq> []"
    and j: "joiner x \<noteq> []" and p: "map_of (profiles s) (joiner x) = Some p"
    and free: "\<not> truthy (teamId p)"
    and tid: "invTeamId x \<noteq> []" and t: "map_of (teams s) (invTeamId x) = Some t"
    and room: "real (length (members t)) < maxMembers t"
    and defd: "ignoreUndefinedProperties s \<or> (avatar p \<noteq> Undefined \<and> primaryRole p \<noteq> Undefined)"
  shows "fst (respondToInvitation i accepted a b ro s) = Inr ()"
    and "invitations (snd (respondToInvitation i accepted a b ro s)) =
           AList.update i (x\<lparr>status := accepted\<rparr>) (invitations s)"
    and "teams (snd (respondToInvitation i accepted a b ro s)) =
           AList.update (invTeamId x)
             (t\<lparr>members := members t @
                  [\<lparr>userId = joiner x,
                    role = orDefault (primaryRole p) (orElse ro ''Member''),
                    userName = orElse (fullName p) ''User''\<rparr>]\<rparr>)
             (teams s)"
    and "profiles (snd (respondToInvitation i accepted a b ro s)) =
           AList.update (joiner x) (p\<lparr>teamId := Some (invTeamId x), isTeamLeader := False\<rparr>)
             (profiles s)"
    and "notifications (snd (respondToInvitation i accepted a b ro s)) =
           AList.update (autoId s (Suc (Suc (issued s))))
             (responseNotification x
                (map_of (AList.update (joiner x)
                           (p\<lparr>teamId := Some (invTeamId x), isTeamLeader := False\<rparr>) (profiles s))
                        (toUserId x))
                ACCEPTED (acceptedMessage x))
             (notifications s)"
proof -
  define s1 where "s1 = invitations_update (AList.update i (x\<lparr>status := accepted\<rparr>)) s"
  define r where "r = orDefault (optionalField (map_of (profiles s) (joiner x)) primaryRole) (orElse ro ''Member'')"
  obtain r2 s2 where add: "addTeamMember (invTeamId x) (joiner x) r s1 = (r2, s2)"
    by force
  have pre: "configured s1" "map_of (profiles s1) (joiner x) = Some p"
    "map_of (teams s1) (invTeamId x) = Some t"
    "ignoreUndefinedProperties s1 \<or> (avatar p \<noteq> Undefined \<and> primaryRole p \<noteq> Undefined)"
    using c p t defd by (simp_all add: s1_def)
  note ok = addTeamMember_success [OF pre(1) j pre(2) free tid pre(3) room pre(4), of r]
  note un = addTeamMember_unrelated [of "invTeamId x" "joiner x" r s1]
  from ok(1) add have r2: "r2 = Inr ()" by simp
  have free': "\<not> truthy (field (map_of (profiles s) (joiner x)) teamId)"
    using p free by (simp add: field_def optionalField_def)
  have run: "respondToInvitation i accepted a b ro s =
       (Inr (),
        notifications_update
          (AList.update (autoId s2 (issued s2))
             (responseNotification x (map_of (profiles s2) (toUserId x)) ACCEPTED
                (acceptedMessage x)))
          (s2\<lparr>issued := Suc (issued s2)\<rparr>))"
    using respond_accept_run [OF c i x j free' tid t room add [unfolded r_def s1_def]] r2 to
    by simp
  have s2: "s2 = snd (addTeamMember (invTeamId x) (joiner x) r s1)"
    using add by simp
  have r': "r = orDefault (primaryRole p) (orElse ro ''Member'')"
    using p by (simp add: r_def field_def optionalField_def)
  show "fst (respondToInvitation i accepted a b ro s) = Inr ()"
    by (simp add: run)
  show "invitations (snd (respondToInvitation i accepted a b ro s)) =
           AList.update i (x\<lparr>status := accepted\<rparr>) (invitations s)"
    using un(2) unfolding run s2 s1_def by simp
  show "teams (snd (respondToInvitation i accepted a b ro s)) =
           AList.update (invTeamId x)
             (t\<lparr>members := members t @
                  [\<lparr>userId = joiner x,
                    role = orDefault (primaryRole p) (orElse ro ''Member''),
                    userName = orElse (fullName p) ''User''\<rparr>]\<rparr>)
             (teams s)"
    using ok(2) unfolding run s2 s1_def r' by simp
  show "profiles (snd (respondToInvitation i accepted a b ro s)) =
           AList.update (joiner x) (p\<lparr>teamId := Some (invTeamId x), isTeamLeader := False\<rparr>)
             (profiles s)"
    using ok(3) unfolding run s2 s1_def r' by simp
  show "notifications (snd (respondToInvitation i accepted a b ro s)) =
           AList.update (autoId s (Suc (Suc (issued s))))
             (responseNotification x
                (map_of (AList.update (joiner x)
                           (p\<lparr>teamId := Some (invTeamId x), isTeamLeader := False\<rparr>) (profiles s))
                        (toUserId x))
                ACCEPTED (acceptedMessage x))
             (notifications s)"
    using ok(3) ok(4) un(3) un(4) unfolding run s2 s1_def r' by simp
qed

section \<open>Capacity, step by step\<close>

lemma withinCapacity_iff: "withinCapacity s \<longleftrightarrow> capacityOn (map_of (teams s))"
proof
  assume L: "withinCapacity s"
  show "capacityOn (map_of (teams s))"
    unfolding capacityOn_def
  proof (intro allI impI)
    fix tid t assume t: "map_of (teams s) tid = Some t"
    then have "tid \<in> set (map fst (teams s))"
      by (metis map_of_eq_None_iff option.distinct(1) set_map)
    with L t show "real (length (members t)) \<le> maxMembers t"
      by (auto simp add: withinCapacity_def list_all_iff)
  qed
next
  assume "capacityOn (map_of (teams s))"
  then show "withinCapacity s"
    by (auto simp add: withinCapacity_def capacityOn_def list_all_iff split: option.splits)
qed

lemma wholeCapacity_iff: "wholeCapacity s \<longleftrightarrow> wholeOn (map_of (teams s))"
proof
  assume L: "wholeCapacity s"
  show "wholeOn (map_of (teams s))"
    unfolding wholeOn_def
  proof (intro allI impI)
    fix tid t assume t: "map_of (teams s) tid = Some t"
    then have "tid \<in> set (map fst (teams s))"
      by (metis map_of_eq_None_iff option.distinct(1) set_map)
    with L t show "whole (maxMembers t)"
      by (auto simp add: wholeCapacity_def list_all_iff)
  qed
next
  assume "wholeOn (map_of (teams s))"
  then show "wholeCapacity s"
    by (auto simp add: wholeCapacity_def wholeOn_def list_all_iff split: option.splits)
qed

lemma withinCapacity_cong: "teams s' = teams s \<Longrightarrow> withinCapacity s' = withinCapacity s"
  by (simp add: withinCapacity_iff)

lemma wholeCapacity_cong: "teams s' = teams s \<Longrightarrow> wholeCapacity s' = wholeCapacity s"
  by (simp add: wholeCapacity_iff)

lemma capacityOn_update:
  "capacityOn T \<Longrightarrow> real (length (members t)) \<le> maxMembers t \<Longrightarrow> capacityOn (T(tid \<mapsto> t))"
  unfolding capacityOn_def by auto

lemma capacityOn_delete: "capacityOn T \<Longrightarrow> capacityOn (T(tid := None))"
  unfolding capacityOn_def by auto

lemma capacityOn_lookup:
  "capacityOn T \<Longrightarrow> T tid = Some t \<Longrightarrow> real (length (members t)) \<le> maxMembers t"
  unfolding capacityOn_def by auto

lemma wholeOn_update: "wholeOn T \<Longrightarrow> whole (maxMembers t) \<Longrightarrow> wholeOn (T(tid \<mapsto> t))"
  unfolding wholeOn_def by auto

lemma wholeOn_delete: "wholeOn T \<Longrightarrow> wholeOn (T(tid := None))"
  unfolding wholeOn_def by auto

lemma wholeOn_lookup: "wholeOn T \<Longrightarrow> T tid = Some t \<Longrightarrow> whole (maxMembers t)"
  unfolding wholeOn_def by auto

text \<open>Below a whole number there is room for one more.\<close>

lemma whole_room:
  assumes "whole m" and "real n < m"
  shows "real (Suc n) \<le> m"
proof -
  from assms(1) obtain k :: int where m: "m = of_int k"
    unfolding whole_def by blast
  from assms(2) have "(of_int (int n) :: real) < of_int k"
    unfolding m by simp
  then have "int n < k" by (simp only: of_int_less_iff)
  then have "int (Suc n) \<le> k" by simp
  then have "(of_int (int (Suc n)) :: real) \<le> of_int k" by (simp only: of_int_le_iff)
  then show ?thesis unfolding m by simp
qed

text \<open>The teams after each operation.\<close>

lemma addTeamMember_teams:
  "teams (snd (addTeamMember tid uid r s)) = teams s \<or>
   (\<exists>t m. map_of (teams s) tid = Some t \<and> real (length (members t)) < maxMembers t \<and>
          teams (snd (addTeamMember tid uid r s)) =
            AList.update tid (t\<lparr>members := members t @ [m]\<rparr>) (teams s))"
  by (auto simp add: addTeamMember_def guarded_apply await_apply getProfile_apply getTeam_apply
        updateTeam_apply updateProfile_apply createFeedPost_apply addDoc_apply Let_def
        split: option.splits)

lemma removeTeamMember_teams:
  "teams (snd (removeTeamMember tid uid s)) = teams s \<or>
   (\<exists>t. map_of (teams s) tid = Some t \<and>
        teams (snd (removeTeamMember tid uid s)) =
          AList.update tid (t\<lparr>members := filter (\<lambda>m. userId m \<noteq> uid) (members t)\<rparr>) (teams s))"
  by (auto simp add: removeTeamMember_def guarded_apply await_apply getTeam_apply
        updateTeam_apply updateProfile_apply getDocs_apply forEach_delete_teamMembers
        split: option.splits)

lemma createTeam_teams:
  "teams (snd (createTeam d s)) = teams s \<or>
   (\<exists>n i. teams (snd (createTeam d s)) =
      AList.update i
        (d\<lparr>leaderName := n,
           members := [\<lparr>userId = leaderId d, role = ''Team Leader'', userName = n\<rparr>]\<rparr>)
        (teams s))"
  by (auto simp add: createTeam_def guarded_apply await_apply getProfile_apply
        updateProfile_apply createFeedPost_apply addDoc_apply Let_def
        split: option.splits)

lemma terminateTeam_teams:
  "teams (snd (terminateTeam tid lid s)) = teams s \<or>
   teams (snd (terminateTeam tid lid s)) = AList.delete tid (teams s)"
proof (cases "configured s \<and> tid \<noteq> [] \<and> (\<exists>t. map_of (teams s) tid = Some t \<and> leaderId t = lid)")
  case False
  then have "snd (terminateTeam tid lid s) = s"
    by (intro terminateTeam_no_write) auto
  then show ?thesis by simp
next
  case True
  then obtain t where c: "configured s" and ne: "tid \<noteq> []"
    and t: "map_of (teams s) tid = Some t" and l: "leaderId t = lid"
    by blast
  obtain r s1 where loop:
    "forEach (\<lambda>m. updateProfile (userId m) \<lparr>p_teamId = None, p_isTeamLeader = False\<rparr>)
       (members t) s = (r, s1)"
    by force
  note run = terminateTeam_run [OF c ne t l loop]
  note facts = forEach_clear [OF c loop]
  show ?thesis
  proof (cases r)
    case (Inl e)
    with run facts show ?thesis by simp
  next
    case (Inr u)
    with run facts show ?thesis by simp
  qed
qed

lemma addTeamMember_capacity:
  assumes "withinCapacity s" and "wholeCapacity s"
  shows "withinCapacity (snd (addTeamMember tid uid r s))"
  using addTeamMember_teams [of tid uid r s]
proof (elim disjE exE conjE)
  assume "teams (snd (addTeamMember tid uid r s)) = teams s"
  with assms show ?thesis by (simp add: withinCapacity_iff)
next
  fix t m
  assume t: "map_of (teams s) tid = Some t" and room: "real (length (members t)) < maxMembers t"
    and res: "teams (snd (addTeamMember tid uid r s)) =
                AList.update tid (t\<lparr>members := members t @ [m]\<rparr>) (teams s)"
  from assms(2) t have "whole (maxMembers t)"
    by (auto simp add: wholeCapacity_iff dest: wholeOn_lookup)
  from whole_room [OF this room] have "real (length (members t @ [m])) \<le> maxMembers t"
    by simp
  with assms(1) have "capacityOn ((map_of (teams s))(tid \<mapsto> t\<lparr>members := members t @ [m]\<rparr>))"
    by (intro capacityOn_update) (simp_all add: withinCapacity_iff)
  with res show ?thesis by (simp add: withinCapacity_iff update_conv')
qed

lemma addTeamMember_whole:
  assumes "wholeCapacity s"
  shows "wholeCapacity (snd (addTeamMember tid uid r s))"
  using addTeamMember_teams [of tid uid r s]
proof (elim disjE exE conjE)
  assume "teams (snd (addTeamMember tid uid r s)) = teams s"
  with assms show ?thesis by (simp add: wholeCapacity_iff)
next
  fix t m
  assume t: "map_of (teams s) tid = Some t"
    and res: "teams (snd (addTeamMember tid uid r s)) =
                AList.update tid (t\<lparr>members := members t @ [m]\<rparr>) (teams s)"
  from assms t have "whole (maxMembers t)"
    by (auto simp add: wholeCapacity_iff dest: wholeOn_lookup)
  with assms have "wholeOn ((map_of (teams s))(tid \<mapsto> t\<lparr>members := members t @ [m]\<rparr>))"
    by (intro wholeOn_update) (simp_all add: wholeCapacity_iff)
  with res show ?thesis by (simp add: wholeCapacity_iff update_conv')
qed

lemma removeTeamMember_capacity:
  assumes "withinCapacity s"
  shows "withinCapacity (snd (removeTeamMember tid uid s))"
  using removeTeamMember_teams [of tid uid s]
proof (elim disjE exE conjE)
  assume "teams (snd (removeTeamMember tid uid s)) = teams s"
  with assms show ?thesis by (simp add: withinCapacity_iff)
next
  fix t
  assume t: "map_of (teams s) tid = Some t"
    and res: "teams (snd (removeTeamMember tid uid s)) =
          AList.update tid (t\<lparr>members := filter (\<lambda>m. userId m \<noteq> uid) (members t)\<rparr>) (teams s)"
  from assms have T: "capacityOn (map_of (teams s))" by (simp add: withinCapacity_iff)
  have "real (length (filter (\<lambda>m. userId m \<noteq> uid) (members t))) \<le> real (length (members t))"
    by simp
  with capacityOn_lookup [OF T t]
  have "real (length (filter (\<lambda>m. userId m \<noteq> uid) (members t))) \<le> maxMembers t"
    by linarith
  then have "capacityOn ((map_of (teams s))
               (tid \<mapsto> t\<lparr>members := filter (\<lambda>m. userId m \<noteq> uid) (members t)\<rparr>))"
    by (intro capacityOn_update [OF T]) simp
  with res show ?thesis by (simp add: withinCapacity_iff update_conv')
qed

lemma removeTeamMember_whole:
  assumes "wholeCapacity s"
  shows "wholeCapacity (snd (removeTeamMember tid uid s))"
  using removeTeamMember_teams [of tid uid s]
proof (elim disjE exE conjE)
  assume "teams (snd (removeTeamMember tid uid s)) = teams s"
  with assms show ?thesis by (simp add: wholeCapacity_iff)
next
  fix t
  assume t: "map_of (teams s) tid = Some t"
    and res: "teams (snd (removeTeamMember tid uid s)) =
          AList.update tid (t\<lparr>members := filter (\<lambda>m. userId m \<noteq> uid) (members t)\<rparr>) (teams s)"
  from assms t have "whole (maxMembers t)"
    by (auto simp add: wholeCapacity_iff dest: wholeOn_lookup)
  with assms have "wholeOn ((map_of (teams s))
               (tid \<mapsto> t\<lparr>members := filter (\<lambda>m. userId m \<noteq> uid) (members t)\<rparr>))"
    by (intro wholeOn_update) (simp_all add: wholeCapacity_iff)
  with res show ?thesis by (simp add: wholeCapacity_iff update_conv')
qed

lemma createTeam_capacity:
  assumes "withinCapacity s" and "1 \<le> maxMembers d"
  shows "withinCapacity (snd (createTeam d s))"
  using createTeam_teams [of d s]
proof (elim disjE exE)
  assume "teams (snd (createTeam d s)) = teams s"
  with assms show ?thesis by (simp add: withinCapacity_iff)
next
  fix n i
  assume res: "teams (snd (createTeam d s)) =
      AList.update i
        (d\<lparr>leaderName := n,
           members := [\<lparr>userId = leaderId d, role = ''Team Leader'', userName = n\<rparr>]\<rparr>)
        (teams s)"
  from assms have "capacityOn ((map_of (teams s))
      (i \<mapsto> d\<lparr>leaderName := n,
           members := [\<lparr>userId = leaderId d, role = ''Team Leader'', userName = n\<rparr>]\<rparr>))"
    by (intro capacityOn_update) (simp_all add: withinCapacity_iff)
  with res show ?thesis by (simp add: withinCapacity_iff update_conv')
qed

lemma createTeam_whole:
  assumes "wholeCapacity s" and "whole (maxMembers d)"
  shows "wholeCapacity (snd (createTeam d s))"
  using createTeam_teams [of d s]
proof (elim disjE exE)
  assume "teams (snd (createTeam d s)) = teams s"
  with assms show ?thesis by (simp add: wholeCapacity_iff)
next
  fix n i
  assume res: "teams (snd (createTeam d s)) =
      AList.update i
        (d\<lparr>leaderName := n,
           members := [\<lparr>userId = leaderId d, role = ''Team Leader'', userName = n\<rparr>]\<rparr>)
        (teams s)"
  from assms have "wholeOn ((map_of (teams s))
      (i \<mapsto> d\<lparr>leaderName := n,
           members := [\<lparr>userId = leaderId d, role = ''Team Leader'', userName = n\<rparr>]\<rparr>))"
    by (intro wholeOn_update) (simp_all add: wholeCapacity_iff)
  with res show ?thesis by (simp add: wholeCapacity_iff update_conv')
qed

lemma terminateTeam_capacity:
  assumes "withinCapacity s"
  shows "withinCapacity (snd (terminateTeam tid lid s))"
  using terminateTeam_teams [of tid lid s] assms capacityOn_delete [of "map_of (teams s)" tid]
  by (auto simp add: withinCapacity_iff delete_conv')

lemma terminateTeam_whole:
  assumes "wholeCapacity s"
  shows "wholeCapacity (snd (terminateTeam tid lid s))"
  using terminateTeam_teams [of tid lid s] assms wholeOn_delete [of "map_of (teams s)" tid]
  by (auto simp add: wholeCapacity_iff delete_conv')

lemma respondToInvitation_capacity:
  assumes "withinCapacity s" and "wholeCapacity s"
  shows "withinCapacity (snd (respondToInvitation i st a b ro s))"
  using respondToInvitation_frame [of i st a b ro s]
proof (elim disjE exE conjE)
  assume "teams (snd (respondToInvitation i st a b ro s)) = teams s"
  then have "withinCapacity (snd (respondToInvitation i st a b ro s)) = withinCapacity s"
    by (rule withinCapacity_cong)
  with assms show ?thesis by simp
next
  fix tid uid r s1
  assume s1: "teams s1 = teams s"
    and res: "teams (snd (respondToInvitation i st a b ro s))
                = teams (snd (addTeamMember tid uid r s1))"
  from assms withinCapacity_cong [OF s1] wholeCapacity_cong [OF s1]
  have "withinCapacity s1" "wholeCapacity s1" by simp_all
  then have "withinCapacity (snd (addTeamMember tid uid r s1))"
    by (rule addTeamMember_capacity)
  with withinCapacity_cong [OF res] show ?thesis by simp
qed

lemma respondToInvitation_whole:
  assumes "wholeCapacity s"
  shows "wholeCapacity (snd (respondToInvitation i st a b ro s))"
  using respondToInvitation_frame [of i st a b ro s]
proof (elim disjE exE conjE)
  assume "teams (snd (respondToInvitation i st a b ro s)) = teams s"
  then have "wholeCapacity (snd (respondToInvitation i st a b ro s)) = wholeCapacity s"
    by (rule wholeCapacity_cong)
  with assms show ?thesis by simp
next
  fix tid uid r s1
  assume s1: "teams s1 = teams s"
    and res: "teams (snd (respondToInvitation i st a b ro s))
                = teams (snd (addTeamMember tid uid r s1))"
  from assms wholeCapacity_cong [OF s1] have "wholeCapacity s1" by simp
  then have "wholeCapacity (snd (addTeamMember tid uid r s1))"
    by (rule addTeamMember_whole)
  with wholeCapacity_cong [OF res] show ?thesis by simp
qed

lemma addTeamMember_full:
  assumes "configured s" and "tid \<noteq> []" and "map_of (teams s) tid = Some t"
    and "real (length (members t)) \<ge> maxMembers t"
  shows "\<exists>e. addTeamMember tid uid r s = (Inl e, s)"
    and "uid \<noteq> [] \<Longrightarrow> \<not> truthy (field (map_of (profiles s) uid) teamId) \<Longrightarrow>
         addTeamMember tid uid r s = (Inl TeamIsFull, s)"
  using assms
  by (auto simp add: addTeamMember_def guarded_apply await_apply getProfile_apply getTeam_apply)

lemma respond_accept_full:
  assumes "configured s" and "i \<noteq> []" and "map_of (invitations s) i = Some x"
    and "invTeamId x \<noteq> []" and "map_of (teams s) (invTeamId x) = Some t"
    and "real (length (members t)) \<ge> maxMembers t"
  shows "\<exists>e. respondToInvitation i accepted a b ro s = (Inl e, s)"
    and "joiner x \<noteq> [] \<Longrightarrow> \<not> truthy (field (map_of (profiles s) (joiner x)) teamId) \<Longrightarrow>
         respondToInvitation i accepted a b ro s = (Inl TeamIsFull, s)"
  using assms
  by (auto simp add: respondToInvitation_def guarded_apply await_apply doc_apply getDoc_def
        getProfile_apply getTeam_apply joiner_def Let_def)

section \<open>Sending an invitation, case by case\<close>

lemma existingPending_empty:
  "existingPending s d = [] \<longleftrightarrow> (fromUserId d, invTeamId d) \<notin> set (pendingPairs (invitations s))"
  by (force simp add: existingPending_def pendingPairs_def filter_empty_conv)

lemma pendingPairs_Nil: "pendingPairs [] = []"
  by (simp add: pendingPairs_def)

lemma pendingPairs_Cons:
  "pendingPairs ((k, w) # al) =
     (if status w = pending then (fromUserId w, invTeamId w) # pendingPairs al
      else pendingPairs al)"
  by (simp add: pendingPairs_def)

lemma pendingPairs_update_subset:
  "set (pendingPairs (AList.update i v al)) \<subseteq> insert (fromUserId v, invTeamId v) (set (pendingPairs al))"
  by (induction al) (auto simp add: pendingPairs_Nil pendingPairs_Cons split: if_splits)

lemma pendingPairs_update:
  "distinct (pendingPairs al) \<Longrightarrow> (fromUserId v, invTeamId v) \<notin> set (pendingPairs al) \<Longrightarrow>
   distinct (pendingPairs (AList.update i v al))"
proof (induction al)
  case Nil
  then show ?case by (simp add: pendingPairs_Nil pendingPairs_Cons)
next
  case (Cons e al)
  obtain k w where e: "e = (k, w)" by (cases e)
  show ?case
  proof (cases "k = i")
    case True
    with Cons.prems e show ?thesis
      by (auto simp add: pendingPairs_Cons split: if_splits)
  next
    case False
    from Cons.prems e have d: "distinct (pendingPairs al)"
      and n: "(fromUserId v, invTeamId v) \<notin> set (pendingPairs al)"
      by (auto simp add: pendingPairs_Cons split: if_splits)
    note IH = Cons.IH [OF d n]
    show ?thesis
    proof (cases "status w = pending")
      case False
      with \<open>k \<noteq> i\<close> e IH show ?thesis by (simp add: pendingPairs_Cons)
    next
      case True
      with Cons.prems e have w: "(fromUserId w, invTeamId w) \<notin> set (pendingPairs al)"
        and vw: "(fromUserId v, invTeamId v) \<noteq> (fromUserId w, invTeamId w)"
        by (auto simp add: pendingPairs_Cons)
      from w vw pendingPairs_update_subset [of i v al]
      have "(fromUserId w, invTeamId w) \<notin> set (pendingPairs (AList.update i v al))"
        by auto
      with True \<open>k \<noteq> i\<close> e IH show ?thesis
        by (simp add: pendingPairs_Cons)
    qed
  qed
qed

lemma sendInvitation_unconfigured: "\<not> configured s \<Longrightarrow> sendInvitation d s = (Inr (), s)"
  by (simp add: sendInvitation_def guarded_apply)

lemma sendInvitation_joiner_in_team:
  assumes "configured s"
    and "joiner d = [] \<or> truthy (field (map_of (profiles s) (joiner d)) teamId)"
  shows "\<exists>e. sendInvitation d s = (Inl e, s)"
  using assms
  by (cases "invType d = join_request")
     (auto simp add: sendInvitation_def guarded_apply await_apply getProfile_apply joiner_def
        Let_def)

lemma sendInvitation_duplicate:
  assumes "configured s" and "joiner d \<noteq> []"
    and "\<not> truthy (field (map_of (profiles s) (joiner d)) teamId)"
    and "existingPending s d \<noteq> []"
  shows "sendInvitation d s =
           (Inl (if invType d = join_request then JoinRequestAlreadySent
                 else InvitationAlreadySent), s)"
  using assms
  by (cases "invType d = join_request")
     (auto simp add: sendInvitation_def guarded_apply await_apply getProfile_apply joiner_def
        getDocs_apply existingPending_def Let_def)

lemma invitationNotification_read:
  "invitationNotification d \<lparr>n_read := False\<rparr> = invitationNotification d"
  by (simp add: invitationNotification_def Let_def)

lemma sendInvitation_success:
  assumes "configured s" and "joiner d \<noteq> []"
    and "\<not> truthy (field (map_of (profiles s) (joiner d)) teamId)"
    and "existingPending s d = []"
  shows "fst (sendInvitation d s) = Inr ()"
    and "invitations (snd (sendInvitation d s)) =
           AList.update (autoId s (issued s)) (d\<lparr>status := pending\<rparr>) (invitations s)"
    and "notifications (snd (sendInvitation d s)) =
           AList.update (autoId s (Suc (issued s))) (invitationNotification d) (notifications s)"
    and "profiles (snd (sendInvitation d s)) = profiles s"
    and "teams (snd (sendInvitation d s)) = teams s"
  using assms
  by (cases "invType d = join_request";
      simp add: sendInvitation_def guarded_apply await_apply getProfile_apply joiner_def
        getDocs_apply existingPending_def addDoc_apply Let_def createNotification_apply
        invitationNotification_read)+

lemma sendInvitation_onePending:
  assumes "onePending s"
  shows "onePending (snd (sendInvitation d s))"
proof (cases "configured s")
  case False
  with assms show ?thesis by (simp add: sendInvitation_unconfigured)
next
  case c: True
  show ?thesis
  proof (cases "joiner d = [] \<or> truthy (field (map_of (profiles s) (joiner d)) teamId)")
    case True
    from sendInvitation_joiner_in_team [OF c True] assms show ?thesis by auto
  next
    case False
    then have j: "joiner d \<noteq> []" and f: "\<not> truthy (field (map_of (profiles s) (joiner d)) teamId)"
      by auto
    show ?thesis
    proof (cases "existingPending s d = []")
      case False
      from sendInvitation_duplicate [OF c j f False] assms show ?thesis by simp
    next
      case True
      then have "(fromUserId (d\<lparr>status := pending\<rparr>), invTeamId (d\<lparr>status := pending\<rparr>))
                   \<notin> set (pendingPairs (invitations s))"
        by (simp add: existingPending_empty)
      with assms have "distinct (pendingPairs (AList.update (autoId s (issued s))
                          (d\<lparr>status := pending\<rparr>) (invitations s)))"
        unfolding onePending_def by (rule pendingPairs_update)
      then show ?thesis
        by (simp add: onePending_def sendInvitation_success(2) [OF c j f True])
    qed
  qed
qed

section \<open>Sending a message\<close>

lemma messageNotification_read:
  "messageNotification r sender sp txt cid \<lparr>n_read := False\<rparr> = messageNotification r sender sp txt cid"
  by (simp add: messageNotification_def)

lemma sendMessage_success:
  assumes "configured s" and "sender \<noteq> []" and "cid \<noteq> []"
    and "map_of (conversations s) cid = Some c"
  shows "fst (sendMessage cid sender txt s) = Inr (autoId s (issued s))"
    and "notifications (snd (sendMessage cid sender txt s)) =
           (case find (\<lambda>i. i \<noteq> sender) (participants c) of
              None \<Rightarrow> notifications s
            | Some r \<Rightarrow>
                if r = [] then notifications s
                else AList.update (autoId s (Suc (issued s)))
                       (messageNotification r sender (map_of (profiles s) sender) txt cid)
                       (notifications s))"
    and "messages (snd (sendMessage cid sender txt s)) =
           AList.update (autoId s (issued s))
             \<lparr>m_conversationId = cid, m_participants = participants c, senderId = sender,
              senderName = orElse (field (map_of (profiles s) sender) fullName) ''User'',
              msgText = txt, m_read = False\<rparr>
             (messages s)"
  using assms
  by (auto simp add: sendMessage_def guarded_apply await_apply getProfile_apply doc_apply
        getDoc_def addDoc_apply updateDoc_def Let_def createNotification_apply
        messageNotification_read
        split: option.splits)

section \<open>Finding or creating a conversation\<close>

lemma find_filter:
  "find Q (filter P al) = (case filter (\<lambda>e. P e \<and> Q e) al of [] \<Rightarrow> None | e # _ \<Rightarrow> Some e)"
  by (induction al) auto

lemma filter_update_single:
  assumes "filter (\<lambda>(i, c). P c) al = []" and "P v"
  shows "filter (\<lambda>(i, c). P c) (AList.update k v al) = [(k, v)]"
  using assms by (induction al) (auto split: if_splits)

lemma getOrCreateConversation_run:
  assumes "configured s"
  shows "getOrCreateConversation user1Id user2Id s =
     (case conversationsOf s user1Id user2Id of
        (k, c) # _ \<Rightarrow> (Inr k, s)
      | [] \<Rightarrow>
          if user1Id = [] \<or> user2Id = [] then (Inl InvalidDocumentReference, s)
          else (Inr (autoId s (issued s)),
                conversations_update
                  (AList.update (autoId s (issued s))
                     (newConversation user1Id user2Id (map_of (profiles s) user1Id)
                        (map_of (profiles s) user2Id)))
                  (s\<lparr>issued := Suc (issued s)\<rparr>)))"
proof -
  have e: "find (\<lambda>(i, c). user2Id \<in> set (participants c))
             (filter (\<lambda>(i, c). user1Id \<in> set (participants c)) (conversations s))
           = (case conversationsOf s user1Id user2Id of [] \<Rightarrow> None | e # _ \<Rightarrow> Some e)"
    unfolding find_filter conversationsOf_def
    by (simp add: case_prod_unfold)
  show ?thesis
    using assms
    by (auto simp add: getOrCreateConversation_def guarded_apply await_apply getDocs_apply e
          getProfile_apply addDoc_apply Let_def
          split: list.splits)
qed

lemma conversationsOf_created:
  assumes "conversationsOf s user1Id user2Id = []"
  shows "conversationsOf
           (conversations_update (AList.update k (newConversation user1Id user2Id p1 p2)) s')
           user1Id user2Id
         = (if conversations s' = conversations s
            then [(k, newConversation user1Id user2Id p1 p2)]
            else conversationsOf
           (conversations_update (AList.update k (newConversation user1Id user2Id p1 p2)) s')
           user1Id user2Id)"
proof (cases "conversations s' = conversations s")
  case False
  then show ?thesis by simp
next
  case True
  have "filter (\<lambda>(i, c). user1Id \<in> set (participants c) \<and> user2Id \<in> set (participants c))
          (AList.update k (newConversation user1Id user2Id p1 p2) (conversations s))
        = [(k, newConversation user1Id user2Id p1 p2)]"
    using assms
    by (intro filter_update_single) (simp_all add: conversationsOf_def newConversation_def)
  with True show ?thesis by (simp add: conversationsOf_def)
qed

section \<open>Without a configured database\<close>

lemma unconfigured_no_op:
  assumes "\<not> configured s"
  shows "getProfile uid s = (Inr None, s)"
    and "getTeam tid s = (Inr None, s)"
    and "updateProfile uid patch s = (Inr (), s)"
    and "updateTeam tid ms s = (Inr (), s)"
    and "createFeedPost post s = (Inr [], s)"
    and "createNotification n s = (Inr (), s)"
    and "createTeam d s = (Inr [], s)"
    and "addTeamMember tid uid r s = (Inr (), s)"
    and "removeTeamMember tid uid s = (Inr (), s)"
    and "terminateTeam tid lid s = (Inr (), s)"
    and "sendInvitation x s = (Inr (), s)"
    and "respondToInvitation i st a b ro s = (Inr (), s)"
    and "getAvailableUsersCount s = (Inr 0, s)"
    and "getOrCreateConversation u1 u2 s = (Inr [], s)"
    and "sendMessage cid sender body s = (Inr [], s)"
  using assms
  by (simp_all add: guarded_apply getProfile_def getTeam_def updateProfile_def updateTeam_def
        createFeedPost_def createNotification_def createTeam_def addTeamMember_def
        removeTeamMember_def terminateTeam_def sendInvitation_def respondToInvitation_def
        getAvailableUsersCount_def getOrCreateConversation_def sendMessage_def)

section \<open>A user is in at most one team\<close>

text \<open>
  Claim C1. In a store with the one-team property, every profile holds either no team id
  or the id of exactly one team, a team that exists and lists the user. Each of the five
  operations that change membership leaves a store with the property in a store with the
  property, whether it returns or rejects half way: \<^verbatim>\<open>createTeam\<close> (the database hands
  out a new, non-empty id for the team), \<^verbatim>\<open>addTeamMember\<close>, \<^verbatim>\<open>removeTeamMember\<close>,
  \<^verbatim>\<open>respondToInvitation\<close> and \<^verbatim>\<open>terminateTeam\<close>. In such a store
  \<^verbatim>\<open>addTeamMember\<close> rejects with \<^verbatim>\<open>User is already in a team\<close>, writing nothing, when the
  profile of the user holds a team id, and \<^verbatim>\<open>removeTeamMember\<close> on an existing team and
  profile returns with the team id of the profile reset to null and the user off the
  members list.
\<close>

theorem one_team_invariant:
  assumes "oneTeam s"
  shows "(autoId s (issued s) \<noteq> [] \<and> autoId s (issued s) \<notin> set (map fst (teams s))
            \<longrightarrow> oneTeam (snd (createTeam d s)))
       \<and> oneTeam (snd (addTeamMember tid uid r s))
       \<and> oneTeam (snd (removeTeamMember tid uid s))
       \<and> oneTeam (snd (respondToInvitation i st a b ro s))
       \<and> oneTeam (snd (terminateTeam tid lid s))
       \<and> (configured s \<and> map_of (profiles s) uid = Some p \<and> teamId p \<noteq> None
            \<longrightarrow> addTeamMember tid uid r s = (Inl UserAlreadyInTeam, s))
       \<and> (configured s \<and> map_of (teams s) tid = Some t \<and> map_of (profiles s) uid = Some p
            \<longrightarrow> fst (removeTeamMember tid uid s) = Inr ()
                \<and> map_of (profiles (snd (removeTeamMember tid uid s))) uid
                    = Some (p\<lparr>teamId := None, isTeamLeader := False\<rparr>)
                \<and> \<not> listedIn (snd (removeTeamMember tid uid s)) uid tid)"
  using assms
  by (simp add: createTeam_oneTeam addTeamMember_oneTeam removeTeamMember_oneTeam
        respondToInvitation_oneTeam terminateTeam_oneTeam addTeamMember_already
        removeTeamMember_success)

theorem one_team_invariant_witness:
  "oneTeam store0
   \<and> oneTeam (snd (createTeam (team1\<lparr>leaderId := ''bob''\<rparr>) store0))
   \<and> oneTeam (snd (addTeamMember ''t1'' ''ann'' ''Dev'' store0))
   \<and> oneTeam (snd (removeTeamMember ''t1'' ''ann'' store0))
   \<and> oneTeam (snd (respondToInvitation ''i1'' accepted None None None store0))
   \<and> oneTeam (snd (terminateTeam ''t1'' ''ann'' store0))
   \<and> teamId ann = Some ''t1''
   \<and> addTeamMember ''t1'' ''ann'' ''Dev'' store0 = (Inl UserAlreadyInTeam, store0)
   \<and> fst (removeTeamMember ''t1'' ''ann'' store0) = Inr ()
   \<and> map_of (profiles (snd (removeTeamMember ''t1'' ''ann'' store0))) ''ann''
        = Some (ann\<lparr>teamId := None, isTeamLeader := False\<rparr>)"
  using one_team_invariant [of store0 "team1\<lparr>leaderId := ''bob''\<rparr>" "''t1''" "''ann''" "''Dev''"
          "''i1''" accepted None None None "''ann''" ann team1] oneTeam_store0
  by (simp add: store0_def ann_def)

section \<open>The one-team precondition of an invitation\<close>

text \<open>
  Claim C6. \<^verbatim>\<open>sendInvitation\<close> checks the prospective joiner first. The joiner is the
  target of an invite and the sender of a join request. When the joiner's profile holds
  a team id (not null; the id of a document is never the empty string), the call
  rejects with \<^verbatim>\<open>User is already in a team\<close> for an invite and with
  \<^verbatim>\<open>You are already in a team\<close> for a join request, and the store is left as it was:
  no invitation and no notification is written.
\<close>

theorem sendInvitation_one_team_precondition:
  assumes "configured s" and "j \<noteq> []"
    and "map_of (profiles s) j = Some p" and "teamId p = Some t" and "t \<noteq> []"
  shows "(invType d \<noteq> join_request \<and> toUserId d = j
            \<longrightarrow> sendInvitation d s = (Inl UserAlreadyInTeam, s))
       \<and> (invType d = join_request \<and> fromUserId d = j
            \<longrightarrow> sendInvitation d s = (Inl YouAreAlreadyInTeam, s))"
  using assms
  by (auto simp add: sendInvitation_def guarded_apply await_apply getProfile_apply
        truthy_def field_def optionalField_def)

theorem sendInvitation_one_team_precondition_witness:
  "configured store0 \<and> map_of (profiles store0) ''ann'' = Some ann
   \<and> teamId ann = Some ''t1''
   \<and> sendInvitation (invite1\<lparr>toUserId := ''ann''\<rparr>) store0 = (Inl UserAlreadyInTeam, store0)
   \<and> sendInvitation (invite1\<lparr>invType := join_request\<rparr>) store0
         = (Inl YouAreAlreadyInTeam, store0)"
  using sendInvitation_one_team_precondition
          [of store0 "''ann''" ann "''t1''" "invite1\<lparr>toUserId := ''ann''\<rparr>"]
        sendInvitation_one_team_precondition
          [of store0 "''ann''" ann "''t1''" "invite1\<lparr>invType := join_request\<rparr>"]
  by (simp add: store0_def ann_def invite1_def)

section \<open>Creating a team\<close>

text \<open>
  Claim C7. \<^verbatim>\<open>createTeam\<close> is to create a team whose members list is exactly the leader
  with role \<^verbatim>\<open>Team Leader\<close>, to set \<^verbatim>\<open>teamId\<close> and \<^verbatim>\<open>isTeamLeader\<close> in the profile of the
  leader, and to create one feed post of type \<^verbatim>\<open>team_created\<close>. The function writes in
  that order, and the post takes \<^verbatim>\<open>leaderProfile?.avatar\<close> and
  \<^verbatim>\<open>leaderProfile?.primaryRole\<close> as they are. For a leader whose profile has no avatar the
  field of the post is \<^verbatim>\<open>undefined\<close>, and a database client with its default settings
  refuses the document. The run below is that of Cy, who has a profile without avatar:
  the call rejects, the team is stored with Cy as its one member, the profile of Cy names
  the team, and there is no post. The same call on a client set to ignore \<^verbatim>\<open>undefined\<close>
  fields returns the id of the team and leaves one post of type \<^verbatim>\<open>team_created\<close>. For
  a leader whose profile has both fields, \<open>createTeam_success\<close> above shows all of what the
  claim says.
\<close>

theorem createTeam_post_refused:
  "configured store4 \<and> \<not> ignoreUndefinedProperties store4
   \<and> map_of (profiles store4) ''cy'' = Some cy \<and> avatar cy = Undefined
   \<and> fst (createTeam (team1\<lparr>leaderId := ''cy'', members := []\<rparr>) store4)
       = Inl UnsupportedFieldValue
   \<and> map (\<lambda>(i, t). (i, members t))
        (teams (snd (createTeam (team1\<lparr>leaderId := ''cy'', members := []\<rparr>) store4)))
       = [(''t1'', [\<lparr>userId = ''ann'', role = ''Team Leader'', userName = ''Ann''\<rparr>]),
          (''id'', [\<lparr>userId = ''cy'', role = ''Team Leader'', userName = ''Cy''\<rparr>])]
   \<and> map_of (profiles (snd (createTeam (team1\<lparr>leaderId := ''cy'', members := []\<rparr>) store4)))
        ''cy'' = Some (cy\<lparr>teamId := Some ''id'', isTeamLeader := True\<rparr>)
   \<and> posts (snd (createTeam (team1\<lparr>leaderId := ''cy'', members := []\<rparr>) store4)) = []
   \<and> fst (createTeam (team1\<lparr>leaderId := ''cy'', members := []\<rparr>)
             (store4\<lparr>ignoreUndefinedProperties := True\<rparr>)) = Inr ''id''
   \<and> map (\<lambda>(i, p). (i, postType p))
        (posts (snd (createTeam (team1\<lparr>leaderId := ''cy'', members := []\<rparr>)
                       (store4\<lparr>ignoreUndefinedProperties := True\<rparr>))))
       = [(''idx'', team_created)]"
  by (simp add: createTeam_def guarded_apply await_apply getProfile_apply
        updateProfile_apply createFeedPost_apply addDoc_apply Let_def field_def
        undefinedInPost_def optionalField_def orElse_def teamCreatedPost_def
        store4_def store0_def cy_def team1_def)
section \<open>Accepting an invitation fails before it writes\<close>

text \<open>
  Claim C8. \<^verbatim>\<open>respondToInvitation\<close> with status \<^verbatim>\<open>accepted\<close> makes all its checks
  before its first write. When the invitation does not exist, or the joining user already
  has a team, or the team of the invitation no longer exists, or that team is full, the
  call rejects and the store is exactly the store it started from: the status of the
  invitation is what it was, and no member, profile change, post or notification has been
  written.
\<close>

theorem respondToInvitation_accept_atomic:
  assumes "configured s"
    and "case map_of (invitations s) i of
           None \<Rightarrow> True
         | Some x \<Rightarrow>
             truthy (field (map_of (profiles s) (joiner x)) teamId)
             \<or> (case map_of (teams s) (invTeamId x) of
                   None \<Rightarrow> True
                 | Some t \<Rightarrow> real (length (members t)) \<ge> maxMembers t)"
  shows "\<exists>e. respondToInvitation i accepted a b ro s = (Inl e, s)"
  using assms
  by (intro respond_rejects_unchanged) (auto split: option.splits)

theorem respondToInvitation_accept_atomic_witness:
  "configured store2 \<and> map_of (invitations store2) ''i1'' = Some invite1
   \<and> map_of (teams store2) (invTeamId invite1) = Some (team1\<lparr>maxMembers := 1\<rparr>)
   \<and> real (length (members (team1\<lparr>maxMembers := 1\<rparr>))) \<ge> maxMembers (team1\<lparr>maxMembers := 1\<rparr>)
   \<and> (\<exists>e. respondToInvitation ''i1'' accepted None None None store2 = (Inl e, store2))"
  using respondToInvitation_accept_atomic [of store2 "''i1''" None None None]
  by (simp add: store2_def store1_def store0_def invite1_def team1_def bob_def ann_def
        joiner_def truthy_def field_def optionalField_def)

section \<open>Responding to an invitation\<close>

text \<open>
  Claim C4. \<^verbatim>\<open>respondToInvitation\<close> is to resolve an invitation: it sets the status, and
  on \<^verbatim>\<open>accepted\<close> the joining user is appended to the members of the team and the profile
  of that user gets the id of the team and \<^verbatim>\<open>isTeamLeader\<close> false. The function checks
  the profile of the joining user with \<^verbatim>\<open>profile?.teamId\<close>, which lets a user without a
  profile pass, writes the status, and then \<^verbatim>\<open>addTeamMember\<close> writes the members list
  before it updates the profile. The run below is that of a join request whose sender has
  deleted the account: \<^verbatim>\<open>deleteUserCompletely\<close> removes the profile of Bob and leaves the
  request. Accepting the request rejects with the client's error for an update of a
  missing document; by then the request is \<^verbatim>\<open>accepted\<close> and the team lists Bob, while
  there is no profile to carry the \<^verbatim>\<open>teamId\<close> and nobody is notified. For a joining user
  who has a profile, \<open>respond_accept_success\<close> above shows the three writes of the claim,
  and \<open>respond_reject_run\<close> shows what a rejection does.
\<close>

theorem respondToInvitation_partial_accept:
  "fst (deleteUserCompletely ''bob'' store5) = Inr ()
   \<and> profiles (snd (deleteUserCompletely ''bob'' store5)) = [(''ann'', ann)]
   \<and> invitations (snd (deleteUserCompletely ''bob'' store5)) = [(''j1'', joinRequest1)]
   \<and> joiner joinRequest1 = ''bob''
   \<and> fst (respondToInvitation ''j1'' accepted None None None
             (snd (deleteUserCompletely ''bob'' store5))) = Inl NoDocumentToUpdate
   \<and> invitations (snd (respondToInvitation ''j1'' accepted None None None
                           (snd (deleteUserCompletely ''bob'' store5))))
       = [(''j1'', joinRequest1\<lparr>status := accepted\<rparr>)]
   \<and> map (\<lambda>(i, t). (i, map userId (members t)))
        (teams (snd (respondToInvitation ''j1'' accepted None None None
                       (snd (deleteUserCompletely ''bob'' store5)))))
       = [(''t1'', [''ann'', ''bob''])]
   \<and> profiles (snd (respondToInvitation ''j1'' accepted None None None
                        (snd (deleteUserCompletely ''bob'' store5))))
       = [(''ann'', ann)]
   \<and> notifications (snd (respondToInvitation ''j1'' accepted None None None
                             (snd (deleteUserCompletely ''bob'' store5)))) = []"
  by (simp add: deleteUserCompletely_def await_apply doc_apply getDocs_apply
        forEach_delete_posts deleteDoc_apply
        respondToInvitation_def guarded_apply getDoc_def getProfile_apply getTeam_apply
        updateDoc_def addTeamMember_def updateTeam_apply updateProfile_apply Let_def
        joiner_def truthy_def field_def optionalField_def orDefault_def orElse_def
        store5_def store0_def joinRequest1_def team1_def bob_def)
section \<open>Team capacity\<close>

text \<open>
  Claim C2, as stated: the member count of a team never exceeds \<^verbatim>\<open>maxMembers\<close>, and
  \<^verbatim>\<open>addTeamMember\<close> rejects with \<^verbatim>\<open>Team is full\<close> whenever the team is full, so that no
  operation grows the members past \<^verbatim>\<open>maxMembers\<close>. Three runs show that this is not what
  the code does. \<^verbatim>\<open>createTeam\<close> does not look at \<^verbatim>\<open>maxMembers\<close>: with \<^verbatim>\<open>maxMembers\<close> 0 it
  creates a team of one member, so a store within capacity turns into one that is not.
  \<^verbatim>\<open>addTeamMember\<close> on a full team rejects with \<^verbatim>\<open>User is already in a team\<close> when the
  user has a team, since that check comes first. And \<^verbatim>\<open>maxMembers\<close> is a number that
  nothing validates: on a team of one member with \<^verbatim>\<open>maxMembers\<close> 1.5 the test
  \<^verbatim>\<open>members.length >= maxMembers\<close> is false, \<^verbatim>\<open>addTeamMember\<close> goes through, and the team
  has two members.
\<close>

theorem capacity_counterexample:
  "withinCapacity store0
   \<and> \<not> withinCapacity (snd (createTeam (team1\<lparr>leaderId := ''bob'', maxMembers := 0\<rparr>) store0))
   \<and> map_of (teams store2) ''t1'' = Some (team1\<lparr>maxMembers := 1\<rparr>)
   \<and> real (length (members (team1\<lparr>maxMembers := 1\<rparr>))) \<ge> maxMembers (team1\<lparr>maxMembers := 1\<rparr>)
   \<and> addTeamMember ''t1'' ''ann'' ''Dev'' store2 = (Inl UserAlreadyInTeam, store2)
   \<and> withinCapacity store6
   \<and> fst (addTeamMember ''t1'' ''bob'' ''Dev'' store6) = Inr ()
   \<and> map (\<lambda>(i, t). (i, maxMembers t, map userId (members t)))
        (teams (snd (addTeamMember ''t1'' ''bob'' ''Dev'' store6)))
       = [(''t1'', 3 / 2, [''ann'', ''bob''])]
   \<and> \<not> withinCapacity (snd (addTeamMember ''t1'' ''bob'' ''Dev'' store6))"
  by (simp add: withinCapacity_def createTeam_def guarded_apply await_apply getProfile_apply
        getTeam_apply updateTeam_apply
        updateProfile_apply createFeedPost_apply addDoc_apply Let_def
        undefinedInPost_simps
        addTeamMember_def truthy_def field_def
        store6_def store2_def store1_def store0_def team1_def ann_def bob_def)

text \<open>
  Claim C2, amended. In a store where every team is within its capacity and every
  \<^verbatim>\<open>maxMembers\<close> is a whole number, \<^verbatim>\<open>addTeamMember\<close>, \<^verbatim>\<open>respondToInvitation\<close>,
  \<^verbatim>\<open>removeTeamMember\<close> and \<^verbatim>\<open>terminateTeam\<close> leave the store so, on every outcome, and so
  does \<^verbatim>\<open>createTeam\<close> when the \<^verbatim>\<open>maxMembers\<close> of the new team is a whole number of at
  least 1. In any store, on a team whose members list is as long as \<^verbatim>\<open>maxMembers\<close> or
  longer, \<^verbatim>\<open>addTeamMember\<close> rejects and writes nothing, and so does \<^verbatim>\<open>respondToInvitation\<close>
  with status \<^verbatim>\<open>accepted\<close>; the error is \<^verbatim>\<open>Team is full\<close> when the joining user has no
  team.
\<close>

theorem capacity_preserved:
  "(withinCapacity s \<and> wholeCapacity s
      \<longrightarrow> (1 \<le> maxMembers d \<and> whole (maxMembers d)
            \<longrightarrow> withinCapacity (snd (createTeam d s)) \<and> wholeCapacity (snd (createTeam d s)))
        \<and> withinCapacity (snd (addTeamMember tid uid r s))
        \<and> wholeCapacity (snd (addTeamMember tid uid r s))
        \<and> withinCapacity (snd (respondToInvitation i st a b ro s))
        \<and> wholeCapacity (snd (respondToInvitation i st a b ro s))
        \<and> withinCapacity (snd (removeTeamMember tid uid s))
        \<and> wholeCapacity (snd (removeTeamMember tid uid s))
        \<and> withinCapacity (snd (terminateTeam tid lid s))
        \<and> wholeCapacity (snd (terminateTeam tid lid s)))
   \<and> (configured s \<and> tid \<noteq> [] \<and> map_of (teams s) tid = Some t
        \<and> real (length (members t)) \<ge> maxMembers t
      \<longrightarrow> (\<exists>e. addTeamMember tid uid r s = (Inl e, s))
          \<and> (uid \<noteq> [] \<and> \<not> truthy (field (map_of (profiles s) uid) teamId)
              \<longrightarrow> addTeamMember tid uid r s = (Inl TeamIsFull, s)))
   \<and> (configured s \<and> i \<noteq> [] \<and> map_of (invitations s) i = Some x
        \<and> invTeamId x \<noteq> [] \<and> map_of (teams s) (invTeamId x) = Some t'
        \<and> real (length (members t')) \<ge> maxMembers t'
      \<longrightarrow> (\<exists>e. respondToInvitation i accepted a b ro s = (Inl e, s))
          \<and> (joiner x \<noteq> [] \<and> \<not> truthy (field (map_of (profiles s) (joiner x)) teamId)
              \<longrightarrow> respondToInvitation i accepted a b ro s = (Inl TeamIsFull, s)))"
proof (intro conjI impI)
  assume h: "configured s \<and> tid \<noteq> [] \<and> map_of (teams s) tid = Some t
        \<and> real (length (members t)) \<ge> maxMembers t"
  then show "\<exists>e. addTeamMember tid uid r s = (Inl e, s)"
    by (intro addTeamMember_full(1) [of s tid t]) simp_all
  assume "uid \<noteq> [] \<and> \<not> truthy (field (map_of (profiles s) uid) teamId)"
  with h show "addTeamMember tid uid r s = (Inl TeamIsFull, s)"
    by (intro addTeamMember_full(2) [of s tid t]) simp_all
next
  assume h: "configured s \<and> i \<noteq> [] \<and> map_of (invitations s) i = Some x
        \<and> invTeamId x \<noteq> [] \<and> map_of (teams s) (invTeamId x) = Some t'
        \<and> real (length (members t')) \<ge> maxMembers t'"
  then show "\<exists>e. respondToInvitation i accepted a b ro s = (Inl e, s)"
    by (intro respond_accept_full(1) [of s i x t']) simp_all
  assume "joiner x \<noteq> [] \<and> \<not> truthy (field (map_of (profiles s) (joiner x)) teamId)"
  with h show "respondToInvitation i accepted a b ro s = (Inl TeamIsFull, s)"
    by (intro respond_accept_full(2) [of s i x t']) simp_all
qed (simp_all add: createTeam_capacity createTeam_whole addTeamMember_capacity
       addTeamMember_whole respondToInvitation_capacity respondToInvitation_whole
       removeTeamMember_capacity removeTeamMember_whole terminateTeam_capacity
       terminateTeam_whole)

theorem capacity_preserved_witness:
  "withinCapacity store2 \<and> wholeCapacity store2
   \<and> withinCapacity (snd (createTeam (team1\<lparr>leaderId := ''bob''\<rparr>) store2))
   \<and> withinCapacity (snd (addTeamMember ''t1'' ''bob'' ''Dev'' store2))
   \<and> withinCapacity (snd (respondToInvitation ''i1'' accepted None None None store2))
   \<and> withinCapacity (snd (removeTeamMember ''t1'' ''bob'' store2))
   \<and> withinCapacity (snd (terminateTeam ''t1'' ''ann'' store2))
   \<and> map_of (teams store2) ''t1'' = Some (team1\<lparr>maxMembers := 1\<rparr>)
   \<and> map_of (invitations store2) ''i1'' = Some invite1
   \<and> addTeamMember ''t1'' ''bob'' ''Dev'' store2 = (Inl TeamIsFull, store2)
   \<and> respondToInvitation ''i1'' accepted None None None store2 = (Inl TeamIsFull, store2)
   \<and> map_of (teams store7) ''t1'' = Some (team1\<lparr>maxMembers := 0\<rparr>)
   \<and> real (length (members (team1\<lparr>maxMembers := 0\<rparr>))) > maxMembers (team1\<lparr>maxMembers := 0\<rparr>)
   \<and> addTeamMember ''t1'' ''bob'' ''Dev'' store7 = (Inl TeamIsFull, store7)
   \<and> respondToInvitation ''i1'' accepted None None None store7 = (Inl TeamIsFull, store7)"
  using capacity_preserved
          [where s = store2 and d = "team1\<lparr>leaderId := ''bob''\<rparr>" and tid = "''t1''"
             and uid = "''bob''" and r = "''Dev''" and i = "''i1''" and st = accepted
             and a = None and b = None and ro = None and lid = "''ann''"
             and t = "team1\<lparr>maxMembers := 1\<rparr>" and x = invite1
             and t' = "team1\<lparr>maxMembers := 1\<rparr>"]
        capacity_preserved
          [where s = store7 and d = "team1\<lparr>leaderId := ''bob''\<rparr>" and tid = "''t1''"
             and uid = "''bob''" and r = "''Dev''" and i = "''i1''" and st = accepted
             and a = None and b = None and ro = None and lid = "''ann''"
             and t = "team1\<lparr>maxMembers := 0\<rparr>" and x = invite1
             and t' = "team1\<lparr>maxMembers := 0\<rparr>"]
  by (simp add: withinCapacity_def wholeCapacity_def whole_def
        store7_def store2_def store1_def store0_def team1_def invite1_def
        bob_def joiner_def truthy_def field_def)
section \<open>One pending invitation for a sender and a team\<close>

text \<open>
  Claim C3, as stated: every call of \<^verbatim>\<open>sendInvitation\<close> that finds no pending invitation
  of the same sender for the same team creates exactly one invitation. An invite to a
  user who already has a team is a call that finds no such invitation and creates none:
  it rejects with \<^verbatim>\<open>User is already in a team\<close>, the check that runs before the query.
\<close>

theorem sendInvitation_otherwise_counterexample:
  "existingPending store0 (invite1\<lparr>toUserId := ''ann''\<rparr>) = []
   \<and> sendInvitation (invite1\<lparr>toUserId := ''ann''\<rparr>) store0 = (Inl UserAlreadyInTeam, store0)"
  by (simp add: existingPending_def sendInvitation_def guarded_apply await_apply
        getProfile_apply truthy_def field_def optionalField_def Let_def store0_def invite1_def ann_def)

text \<open>
  Claim C3, amended. \<^verbatim>\<open>sendInvitation\<close> keeps the pending invitations of a store at
  pairwise different (sender, team) pairs, on every outcome. When the store is configured
  and the one-team check on the prospective joiner passes: if a pending invitation with
  the same \<^verbatim>\<open>fromUserId\<close> and \<^verbatim>\<open>teamId\<close> exists, the call rejects with
  \<^verbatim>\<open>Join request already sent\<close> for a join request and \<^verbatim>\<open>Invitation already sent\<close>
  otherwise, and writes nothing; if none exists, the call returns and the invitations
  collection has gained exactly one document, the data passed in with status
  \<^verbatim>\<open>pending\<close>, under the new id the database handed out.
\<close>

theorem sendInvitation_one_pending:
  "(onePending s \<longrightarrow> onePending (snd (sendInvitation d s)))
   \<and> (configured s \<and> joiner d \<noteq> []
       \<and> \<not> truthy (field (map_of (profiles s) (joiner d)) teamId)
      \<longrightarrow> (existingPending s d \<noteq> []
            \<longrightarrow> sendInvitation d s =
                  (Inl (if invType d = join_request then JoinRequestAlreadySent
                        else InvitationAlreadySent), s))
          \<and> (existingPending s d = [] \<and> autoId s (issued s) \<notin> fst ` set (invitations s)
            \<longrightarrow> fst (sendInvitation d s) = Inr ()
                \<and> invitations (snd (sendInvitation d s))
                    = invitations s @ [(autoId s (issued s), d\<lparr>status := pending\<rparr>)]))"
  by (simp add: sendInvitation_onePending sendInvitation_duplicate sendInvitation_success
        update_fresh)

theorem sendInvitation_one_pending_witness:
  "onePending store1 \<and> onePending (snd (sendInvitation invite1 store1))
   \<and> existingPending store1 invite1 \<noteq> []
   \<and> sendInvitation invite1 store1 = (Inl InvitationAlreadySent, store1)
   \<and> existingPending store0 invite1 = []
   \<and> fst (sendInvitation invite1 store0) = Inr ()
   \<and> invitations (snd (sendInvitation invite1 store0)) = [(''id'', invite1)]"
  using sendInvitation_one_pending [of store1 invite1]
        sendInvitation_one_pending [of store0 invite1]
  by (simp add: onePending_def pendingPairs_def existingPending_def joiner_def truthy_def
        field_def optionalField_def store1_def store0_def invite1_def bob_def)

section \<open>Notifications\<close>

text \<open>
  Claim C5, as stated: every \<^verbatim>\<open>sendMessage\<close> creates exactly one notification, for the
  other participant of the conversation, and every \<^verbatim>\<open>respondToInvitation\<close> creates one
  for the sender of the invitation. \<^verbatim>\<open>getOrCreateConversation\<close> accepts the same
  user twice and then creates a conversation whose two participants are that user; a
  message sent there is stored, and no notification is created, since \<^verbatim>\<open>sendMessage\<close>
  notifies only when it finds a participant other than the sender. And when Cy, whose
  profile has no avatar, accepts the invitation of Ann on a client with its default
  settings, the status, the member and the profile are written, the feed post of
  \<^verbatim>\<open>addTeamMember\<close> is refused, and the call rejects before it comes to the notification.
\<close>

theorem notification_counterexample:
  "fst (getOrCreateConversation ''ann'' ''ann'' store0) = Inr ''id''
   \<and> fst (sendMessage ''id'' ''ann'' ''hi'' (snd (getOrCreateConversation ''ann'' ''ann'' store0)))
       = Inr ''idx''
   \<and> map fst (messages (snd (sendMessage ''id'' ''ann'' ''hi''
                  (snd (getOrCreateConversation ''ann'' ''ann'' store0))))) = [''idx'']
   \<and> notifications (snd (sendMessage ''id'' ''ann'' ''hi''
                  (snd (getOrCreateConversation ''ann'' ''ann'' store0)))) = []
   \<and> fst (respondToInvitation ''i2'' accepted None None None store8) = Inl UnsupportedFieldValue
   \<and> invitations (snd (respondToInvitation ''i2'' accepted None None None store8))
       = [(''i2'', invite2\<lparr>status := accepted\<rparr>)]
   \<and> map (\<lambda>(i, t). (i, map userId (members t)))
        (teams (snd (respondToInvitation ''i2'' accepted None None None store8)))
       = [(''t1'', [''ann'', ''cy''])]
   \<and> map_of (profiles (snd (respondToInvitation ''i2'' accepted None None None store8))) ''cy''
       = Some (cy\<lparr>teamId := Some ''t1'', isTeamLeader := False\<rparr>)
   \<and> notifications (snd (respondToInvitation ''i2'' accepted None None None store8)) = []"
  by (simp add: getOrCreateConversation_def sendMessage_def guarded_apply await_apply
        getDocs_apply getProfile_apply doc_apply getDoc_def addDoc_apply updateDoc_def Let_def
        newConversation_def
        respondToInvitation_def getTeam_apply addTeamMember_def updateTeam_apply
        updateProfile_apply createFeedPost_apply undefinedInPost_def memberJoinedPost_def
        truthy_def field_def optionalField_def orDefault_def orElse_def
        store8_def store4_def store0_def invite2_def invite1_def team1_def cy_def)

text \<open>
  Claim C5, amended. In a configured store, each of these transitions, when it goes
  through, adds exactly one document to the notifications collection, with \<^verbatim>\<open>read\<close>
  false: \<^verbatim>\<open>sendInvitation\<close> one of type \<^verbatim>\<open>INVITE\<close> or \<^verbatim>\<open>JOIN_REQUEST\<close> for the
  \<^verbatim>\<open>toUserId\<close> of the data, \<^verbatim>\<open>respondToInvitation\<close> one of type \<^verbatim>\<open>ACCEPTED\<close> or
  \<^verbatim>\<open>REJECTED\<close> for the \<^verbatim>\<open>fromUserId\<close> of the invitation, and \<^verbatim>\<open>sendMessage\<close> one of type
  \<^verbatim>\<open>MESSAGE\<close> for the first participant of the conversation who is not the sender. When
  the conversation has no such participant, \<^verbatim>\<open>sendMessage\<close> stores the message and creates
  no notification. An acceptance goes through when the joining user has a profile without
  a team, the team exists and has room, and the feed post is accepted: the profile has
  \<^verbatim>\<open>avatar\<close> and \<^verbatim>\<open>primaryRole\<close>, or the client ignores \<^verbatim>\<open>undefined\<close> fields. The id the
  database hands out for the notification is new in the collection.
\<close>

theorem one_notification_per_transition:
  assumes "configured s"
  shows "(joiner d \<noteq> [] \<and> \<not> truthy (field (map_of (profiles s) (joiner d)) teamId)
          \<and> existingPending s d = []
          \<and> autoId s (Suc (issued s)) \<notin> fst ` set (notifications s)
        \<longrightarrow> fst (sendInvitation d s) = Inr ()
            \<and> (\<exists>N. notifications (snd (sendInvitation d s))
                    = notifications s @ [(autoId s (Suc (issued s)), N)]
                \<and> n_toUserId N = toUserId d
                \<and> n_type N = (if invType d = join_request then JOIN_REQUEST else INVITE)
                \<and> \<not> n_read N))
       \<and> (i \<noteq> [] \<and> map_of (invitations s) i = Some x \<and> toUserId x \<noteq> []
          \<and> joiner x \<noteq> [] \<and> map_of (profiles s) (joiner x) = Some p \<and> \<not> truthy (teamId p)
          \<and> invTeamId x \<noteq> [] \<and> map_of (teams s) (invTeamId x) = Some t
          \<and> real (length (members t)) < maxMembers t
          \<and> (ignoreUndefinedProperties s
               \<or> (avatar p \<noteq> Undefined \<and> primaryRole p \<noteq> Undefined))
          \<and> autoId s (Suc (Suc (issued s))) \<notin> fst ` set (notifications s)
        \<longrightarrow> fst (respondToInvitation i accepted a b ro s) = Inr ()
            \<and> (\<exists>N. notifications (snd (respondToInvitation i accepted a b ro s))
                    = notifications s @ [(autoId s (Suc (Suc (issued s))), N)]
                \<and> n_toUserId N = fromUserId x \<and> n_type N = ACCEPTED \<and> \<not> n_read N))
       \<and> (i \<noteq> [] \<and> map_of (invitations s) i = Some x \<and> toUserId x \<noteq> []
          \<and> autoId s (issued s) \<notin> fst ` set (notifications s)
        \<longrightarrow> fst (respondToInvitation i rejected a b ro s) = Inr ()
            \<and> (\<exists>N. notifications (snd (respondToInvitation i rejected a b ro s))
                    = notifications s @ [(autoId s (issued s), N)]
                \<and> n_toUserId N = fromUserId x \<and> n_type N = REJECTED \<and> \<not> n_read N))
       \<and> (sender \<noteq> [] \<and> cid \<noteq> [] \<and> map_of (conversations s) cid = Some c
        \<longrightarrow> fst (sendMessage cid sender msg s) = Inr (autoId s (issued s))
          \<and> (find (\<lambda>u. u \<noteq> sender) (participants c) = Some r \<and> r \<noteq> []
              \<and> autoId s (Suc (issued s)) \<notin> fst ` set (notifications s)
             \<longrightarrow> (\<exists>N. notifications (snd (sendMessage cid sender msg s))
                         = notifications s @ [(autoId s (Suc (issued s)), N)]
                     \<and> n_toUserId N = r \<and> n_type N = MESSAGE \<and> \<not> n_read N))
          \<and> (find (\<lambda>u. u \<noteq> sender) (participants c) = None
              \<or> find (\<lambda>u. u \<noteq> sender) (participants c) = Some []
             \<longrightarrow> notifications (snd (sendMessage cid sender msg s)) = notifications s
                 \<and> messages (snd (sendMessage cid sender msg s))
                     = AList.update (autoId s (issued s))
                         \<lparr>m_conversationId = cid, m_participants = participants c,
                          senderId = sender,
                          senderName =
                            orElse (field (map_of (profiles s) sender) fullName) ''User'',
                          msgText = msg, m_read = False\<rparr>
                         (messages s)))"
proof (intro conjI impI)
  assume h: "joiner d \<noteq> [] \<and> \<not> truthy (field (map_of (profiles s) (joiner d)) teamId)
          \<and> existingPending s d = []
          \<and> autoId s (Suc (issued s)) \<notin> fst ` set (notifications s)"
  then show "fst (sendInvitation d s) = Inr ()"
    using assms by (simp add: sendInvitation_success(1))
  from h have "notifications (snd (sendInvitation d s))
               = notifications s @ [(autoId s (Suc (issued s)), invitationNotification d)]"
    using assms by (simp add: sendInvitation_success update_fresh)
  then show "\<exists>N. notifications (snd (sendInvitation d s))
                    = notifications s @ [(autoId s (Suc (issued s)), N)]
                \<and> n_toUserId N = toUserId d
                \<and> n_type N = (if invType d = join_request then JOIN_REQUEST else INVITE)
                \<and> \<not> n_read N"
    by (intro exI [of _ "invitationNotification d"])
       (simp add: invitationNotification_def Let_def)
next
  assume h: "i \<noteq> [] \<and> map_of (invitations s) i = Some x \<and> toUserId x \<noteq> []
          \<and> joiner x \<noteq> [] \<and> map_of (profiles s) (joiner x) = Some p \<and> \<not> truthy (teamId p)
          \<and> invTeamId x \<noteq> [] \<and> map_of (teams s) (invTeamId x) = Some t
          \<and> real (length (members t)) < maxMembers t
          \<and> (ignoreUndefinedProperties s
               \<or> (avatar p \<noteq> Undefined \<and> primaryRole p \<noteq> Undefined))
          \<and> autoId s (Suc (Suc (issued s))) \<notin> fst ` set (notifications s)"
  define N where "N = responseNotification x
                (map_of (AList.update (joiner x)
                           (p\<lparr>teamId := Some (invTeamId x), isTeamLeader := False\<rparr>) (profiles s))
                        (toUserId x))
                ACCEPTED (acceptedMessage x)"
  from h have pre: "i \<noteq> []" "map_of (invitations s) i = Some x" "toUserId x \<noteq> []"
    "joiner x \<noteq> []" "map_of (profiles s) (joiner x) = Some p" "\<not> truthy (teamId p)"
    "invTeamId x \<noteq> []" "map_of (teams s) (invTeamId x) = Some t"
    "real (length (members t)) < maxMembers t"
    "ignoreUndefinedProperties s \<or> (avatar p \<noteq> Undefined \<and> primaryRole p \<noteq> Undefined)"
    by simp_all
  note ok = respond_accept_success [OF assms pre, of a b ro]
  show "fst (respondToInvitation i accepted a b ro s) = Inr ()"
    by (rule ok(1))
  from h have "notifications (snd (respondToInvitation i accepted a b ro s))
               = notifications s @ [(autoId s (Suc (Suc (issued s))), N)]"
    unfolding N_def by (simp add: ok(5) update_fresh)
  then show "\<exists>N. notifications (snd (respondToInvitation i accepted a b ro s))
                    = notifications s @ [(autoId s (Suc (Suc (issued s))), N)]
                \<and> n_toUserId N = fromUserId x \<and> n_type N = ACCEPTED \<and> \<not> n_read N"
    by (intro exI [of _ N]) (simp add: N_def responseNotification_def Let_def)
next
  assume h: "i \<noteq> [] \<and> map_of (invitations s) i = Some x \<and> toUserId x \<noteq> []
          \<and> autoId s (issued s) \<notin> fst ` set (notifications s)"
  define N where "N = responseNotification x (map_of (profiles s) (toUserId x)) REJECTED
                        (rejectedMessage x)"
  from h assms show "fst (respondToInvitation i rejected a b ro s) = Inr ()"
    by (simp add: respond_reject_run)
  from h assms have "notifications (snd (respondToInvitation i rejected a b ro s))
               = notifications s @ [(autoId s (issued s), N)]"
    unfolding N_def by (simp add: respond_reject_run update_fresh)
  then show "\<exists>N. notifications (snd (respondToInvitation i rejected a b ro s))
                    = notifications s @ [(autoId s (issued s), N)]
                \<and> n_toUserId N = fromUserId x \<and> n_type N = REJECTED \<and> \<not> n_read N"
    by (intro exI [of _ N]) (simp add: N_def responseNotification_def Let_def)
next
  assume m: "sender \<noteq> [] \<and> cid \<noteq> [] \<and> map_of (conversations s) cid = Some c"
  with assms show "fst (sendMessage cid sender msg s) = Inr (autoId s (issued s))"
    by (simp add: sendMessage_success(1))
next
  assume m: "sender \<noteq> [] \<and> cid \<noteq> [] \<and> map_of (conversations s) cid = Some c"
    and h: "find (\<lambda>u. u \<noteq> sender) (participants c) = Some r \<and> r \<noteq> []
              \<and> autoId s (Suc (issued s)) \<notin> fst ` set (notifications s)"
  define N where "N = messageNotification r sender (map_of (profiles s) sender) msg cid"
  from m h assms have "notifications (snd (sendMessage cid sender msg s))
               = notifications s @ [(autoId s (Suc (issued s)), N)]"
    unfolding N_def by (simp add: sendMessage_success(2) update_fresh)
  then show "\<exists>N. notifications (snd (sendMessage cid sender msg s))
                         = notifications s @ [(autoId s (Suc (issued s)), N)]
                     \<and> n_toUserId N = r \<and> n_type N = MESSAGE \<and> \<not> n_read N"
    by (intro exI [of _ N]) (simp add: N_def messageNotification_def)
next
  assume m: "sender \<noteq> [] \<and> cid \<noteq> [] \<and> map_of (conversations s) cid = Some c"
    and h: "find (\<lambda>u. u \<noteq> sender) (participants c) = None
              \<or> find (\<lambda>u. u \<noteq> sender) (participants c) = Some []"
  from m h assms show "notifications (snd (sendMessage cid sender msg s)) = notifications s"
    by (auto simp add: sendMessage_success(2))
  from m assms show "messages (snd (sendMessage cid sender msg s))
                     = AList.update (autoId s (issued s))
                         \<lparr>m_conversationId = cid, m_participants = participants c,
                          senderId = sender,
                          senderName =
                            orElse (field (map_of (profiles s) sender) fullName) ''User'',
                          msgText = msg, m_read = False\<rparr>
                         (messages s)"
    by (simp add: sendMessage_success(3))
qed

theorem one_notification_per_transition_witness:
  "configured store3
   \<and> fst (sendInvitation joinRequest1 store3) = Inr ()
   \<and> map (\<lambda>(k, n). (k, n_toUserId n, n_type n, n_read n))
        (notifications (snd (sendInvitation joinRequest1 store3)))
       = [(''idx'', ''ann'', JOIN_REQUEST, False)]
   \<and> fst (respondToInvitation ''i1'' accepted None None None store3) = Inr ()
   \<and> map (\<lambda>(k, n). (k, n_toUserId n, n_type n, n_read n))
        (notifications (snd (respondToInvitation ''i1'' accepted None None None store3)))
       = [(''idxx'', ''ann'', ACCEPTED, False)]
   \<and> fst (respondToInvitation ''i1'' rejected None None None store3) = Inr ()
   \<and> map (\<lambda>(k, n). (k, n_toUserId n, n_type n, n_read n))
        (notifications (snd (respondToInvitation ''i1'' rejected None None None store3)))
       = [(''id'', ''ann'', REJECTED, False)]
   \<and> fst (sendMessage ''c1'' ''ann'' ''hi'' store3) = Inr ''id''
   \<and> map (\<lambda>(k, n). (k, n_toUserId n, n_type n, n_read n))
        (notifications (snd (sendMessage ''c1'' ''ann'' ''hi'' store3)))
       = [(''idx'', ''bob'', MESSAGE, False)]
   \<and> fst (sendMessage ''c2'' ''ann'' ''hi'' store3) = Inr ''id''
   \<and> notifications (snd (sendMessage ''c2'' ''ann'' ''hi'' store3)) = []
   \<and> map (\<lambda>(k, m). (k, m_conversationId m, senderId m, msgText m))
        (messages (snd (sendMessage ''c2'' ''ann'' ''hi'' store3)))
       = [(''id'', ''c2'', ''ann'', ''hi'')]"
  using one_notification_per_transition
          [where s = store3 and d = joinRequest1 and i = "''i1''"
             and x = invite1 and p = bob and t = team1 and a = None and b = None
             and ro = None and sender = "''ann''" and cid = "''c1''"
             and c = "newConversation ''ann'' ''bob'' (Some ann) (Some bob)"
             and r = "''bob''" and msg = "''hi''"]
        one_notification_per_transition
          [where s = store3 and d = joinRequest1 and i = "''i1''"
             and x = invite1 and p = bob and t = team1 and a = None and b = None
             and ro = None and sender = "''ann''" and cid = "''c2''"
             and c = "newConversation ''ann'' ''ann'' (Some ann) (Some ann)"
             and r = "''bob''" and msg = "''hi''"]
  by (auto simp add: store3_def store1_def store0_def invite1_def joinRequest1_def bob_def
        team1_def joiner_def truthy_def field_def optionalField_def existingPending_def newConversation_def)
section \<open>One conversation for two users\<close>

text \<open>
  Claim C9. \<^verbatim>\<open>getOrCreateConversation\<close> in a configured store: when a conversation whose
  participants include both users exists, the call returns the id of the first such
  conversation and leaves the store as it is. For two user ids, a call returns an id, and
  a second call with the same two ids in the store the first call left returns the same id
  and changes nothing; when the store had at most one conversation for the two users
  before, it has exactly one after, the one whose id was returned.
\<close>

theorem getOrCreateConversation_idempotent:
  assumes "configured s"
  shows "(conversationsOf s user1Id user2Id = (k, c) # others
            \<longrightarrow> getOrCreateConversation user1Id user2Id s = (Inr k, s))
       \<and> (user1Id \<noteq> [] \<and> user2Id \<noteq> []
            \<longrightarrow> (\<exists>i s'. getOrCreateConversation user1Id user2Id s = (Inr i, s')
                      \<and> getOrCreateConversation user1Id user2Id s' = (Inr i, s')
                      \<and> (length (conversationsOf s user1Id user2Id) \<le> 1
                           \<longrightarrow> map fst (conversationsOf s' user1Id user2Id) = [i])))"
proof (intro conjI impI)
  assume "conversationsOf s user1Id user2Id = (k, c) # others"
  then show "getOrCreateConversation user1Id user2Id s = (Inr k, s)"
    by (simp add: getOrCreateConversation_run [OF assms])
next
  assume ne: "user1Id \<noteq> [] \<and> user2Id \<noteq> []"
  show "\<exists>i s'. getOrCreateConversation user1Id user2Id s = (Inr i, s')
                      \<and> getOrCreateConversation user1Id user2Id s' = (Inr i, s')
                      \<and> (length (conversationsOf s user1Id user2Id) \<le> 1
                           \<longrightarrow> map fst (conversationsOf s' user1Id user2Id) = [i])"
  proof (cases "conversationsOf s user1Id user2Id")
    case (Cons e es)
    obtain k' c' where e: "e = (k', c')" by (cases e)
    with Cons have "getOrCreateConversation user1Id user2Id s = (Inr k', s)"
      by (simp add: getOrCreateConversation_run [OF assms])
    moreover from Cons e
    have "length (conversationsOf s user1Id user2Id) \<le> 1
            \<longrightarrow> map fst (conversationsOf s user1Id user2Id) = [k']"
      by simp
    ultimately show ?thesis
      by (intro exI [of _ k'] exI [of _ s]) simp
  next
    case Nil
    define i where "i = autoId s (issued s)"
    define v where "v = newConversation user1Id user2Id (map_of (profiles s) user1Id)
                        (map_of (profiles s) user2Id)"
    define s' where "s' = conversations_update (AList.update i v) (s\<lparr>issued := Suc (issued s)\<rparr>)"
    have first: "getOrCreateConversation user1Id user2Id s = (Inr i, s')"
      using Nil ne by (simp add: getOrCreateConversation_run [OF assms] i_def v_def s'_def)
    have now: "conversationsOf s' user1Id user2Id = [(i, v)]"
      using conversationsOf_created [OF Nil, of i "map_of (profiles s) user1Id"
              "map_of (profiles s) user2Id" "s\<lparr>issued := Suc (issued s)\<rparr>"]
      by (simp add: s'_def v_def)
    have c': "configured s'" using assms by (simp add: s'_def)
    have second: "getOrCreateConversation user1Id user2Id s' = (Inr i, s')"
      by (simp add: getOrCreateConversation_run [OF c'] now)
    from first second now show ?thesis
      by (intro exI [of _ i] exI [of _ s']) simp
  qed
qed

theorem getOrCreateConversation_idempotent_witness:
  "configured store3
   \<and> conversationsOf store3 ''bob'' ''ann''
       = [(''c1'', newConversation ''ann'' ''bob'' (Some ann) (Some bob))]
   \<and> getOrCreateConversation ''bob'' ''ann'' store3 = (Inr ''c1'', store3)
   \<and> (\<exists>i s'. getOrCreateConversation ''bob'' ''ann'' store3 = (Inr i, s')
              \<and> getOrCreateConversation ''bob'' ''ann'' s' = (Inr i, s')
              \<and> map fst (conversationsOf s' ''bob'' ''ann'') = [i])
   \<and> conversationsOf store0 ''ann'' ''bob'' = []
   \<and> (\<exists>i s'. getOrCreateConversation ''ann'' ''bob'' store0 = (Inr i, s')
              \<and> getOrCreateConversation ''ann'' ''bob'' s' = (Inr i, s')
              \<and> map fst (conversationsOf s' ''ann'' ''bob'') = [i])"
  using getOrCreateConversation_idempotent
          [where s = store3 and ?user1Id = "''bob''" and ?user2Id = "''ann''" and k = "''c1''"
             and c = "newConversation ''ann'' ''bob'' (Some ann) (Some bob)" and others = "[]"]
        getOrCreateConversation_idempotent
          [where s = store0 and ?user1Id = "''ann''" and ?user2Id = "''bob''"]
  by (simp add: conversationsOf_def store3_def store1_def store0_def newConversation_def)

section \<open>The functions without a configured database\<close>

text \<open>
  Claim C10. When \<^verbatim>\<open>isFirebaseConfigured()\<close> is false, every exported function of the
  module is to return its neutral value and do nothing. The functions with the guard do
  so (\<open>unconfigured_no_op\<close> above). \<^verbatim>\<open>deleteUserCompletely\<close> is exported without the
  guard: it goes to the database whatever \<^verbatim>\<open>isFirebaseConfigured()\<close> says. Run on the
  store that is not configured, \<^verbatim>\<open>removeTeamMember\<close> returns and leaves the store alone,
  while \<^verbatim>\<open>deleteUserCompletely\<close> makes its calls to the database and the profile of the
  user is gone.
\<close>

theorem deleteUserCompletely_unguarded:
  "\<not> configured (store0\<lparr>configured := False\<rparr>)
   \<and> removeTeamMember ''t1'' ''bob'' (store0\<lparr>configured := False\<rparr>)
       = (Inr (), store0\<lparr>configured := False\<rparr>)
   \<and> fst (deleteUserCompletely ''bob'' (store0\<lparr>configured := False\<rparr>)) = Inr ()
   \<and> profiles (store0\<lparr>configured := False\<rparr>) = [(''ann'', ann), (''bob'', bob)]
   \<and> profiles (snd (deleteUserCompletely ''bob'' (store0\<lparr>configured := False\<rparr>)))
       = [(''ann'', ann)]"
  by (simp add: deleteUserCompletely_def await_apply doc_apply getDocs_apply
        forEach_delete_posts deleteDoc_apply removeTeamMember_def guarded_apply
        store0_def bob_def)

end
